theory Spec2Isabelle
  imports Complex_Main
begin

section \<open>The chat-response service of \<^verbatim>\<open>api.py\<close>\<close>

text \<open>
  The handlers of \<^verbatim>\<open>api.py\<close> are sequential glue around collaborators whose code is
  not among the sources (\<^verbatim>\<open>DbFeedbackInterface\<close>, \<^verbatim>\<open>validation\<close>,
  \<^verbatim>\<open>rate_limiter\<close>, \<^verbatim>\<open>translator\<close>, \<^verbatim>\<open>guardrail\<close>, \<^verbatim>\<open>prepare\<close>, the knowledge-graph
  engine and \<^verbatim>\<open>evaluate_with_ragas\<close>). The handlers are embedded as state-passing
  functions: every handler takes the state of the service and returns its result together
  with the state it leaves behind. An exception is a value \<open>Inl e\<close>; the state returned
  with it is the state at the raise, since nothing in \<^verbatim>\<open>api.py\<close> rolls back.

  The persistence gateway and the access validator are modelled from the spec on four
  tables. Every other collaborator is a parameter, a field of the record \<open>env\<close>.
  Tracing spans, HTTP time-outs and the session header influence no value the handlers
  compute and are left out.
\<close>

subsection \<open>Data\<close>

type_synonym timestamp = nat
type_synonym kg_payload = string
type_synonym products = "string list"

text \<open>
  Exceptions. \<open>HTTPException\<close> is what \<^verbatim>\<open>api.py\<close> raises itself (status code and
  detail). \<open>NotFound\<close> and \<open>AccessDenied\<close> are the failures of the access validator, named as
  in the spec. \<open>AttributeError\<close> and \<open>KeyError\<close> are Python's own, raised by
  \<^verbatim>\<open>None.attr\<close> and \<^verbatim>\<open>d[k]\<close>. \<open>UpstreamFailure\<close> is any exception that leaves a
  collaborator.
\<close>

datatype error =
    HTTPException nat string
  | NotFound
  | AccessDenied
  | AttributeError string
  | KeyError string
  | UpstreamFailure string

text \<open>\<^verbatim>\<open>schemas.ChatResponse\<close> and its references; the fields the handler touches.\<close>

record reference =
  ref_id :: string
  ref_type :: string

record chat_response =
  cr_id :: string
  cr_createdAt :: timestamp
  cr_input :: string
  cr_output :: string
  cr_references :: "reference list"

text \<open>\<^verbatim>\<open>schemas.ChatMessage\<close>, the authenticated user (\<^verbatim>\<open>user["email"]\<close>) and
  \<^verbatim>\<open>schemas.RatingObject\<close>. A rating is the stored value of the rating enumeration;
  only its equality matters here.\<close>

record chat_message =
  content :: string
  stream :: bool

record auth_user =
  email :: string

record rating_object =
  rating :: "int option"

text \<open>The rows of the persistence gateway (spec, section 3).\<close>

record user_row =
  meta_user_id :: nat
  u_email :: string

record chat_row =
  c_id :: string
  c_meta_user_id :: nat
  c_createdAt :: timestamp

record response_row =
  r_id :: string
  r_chat_id :: string
  r_user_input :: string
  r_query :: string
  r_output :: string
  r_original_response :: kg_payload
  r_rating :: "int option"
  r_createdAt :: timestamp

record reference_row =
  reference_id :: string
  reference_type :: string
  idx :: nat
  response_id :: string

text \<open>The body posted to the knowledge-graph engine (lines 240--246).\<close>

record conversation_element =
  role :: string
  element_content :: string

record post_data =
  pd_message :: conversation_element
  pd_stream :: bool
  pd_temperature :: real
  pd_max_tokens :: nat
  pd_conversation_history :: "conversation_element list"

record guardrail_result =
  relevant :: bool
  message :: "string option"

datatype order_by = Asc | Desc

text \<open>
  The calls the handlers make that leave the process or write a Response or Reference
  row, recorded in the order they are made. A call is recorded when it is made, also
  when it then fails.
\<close>

datatype call =
    Translate string string
  | Guardrails "string option"
  | KgPost string post_data
  | InsertResponse response_row
  | InsertResponseReference reference_row
  | UpdateResponseRating string "int option"
  | EvaluateWithRagas string string

text \<open>What is written to the log: the warning of line 305 and the structured entry of
  \<^verbatim>\<open>log_low_quality_response\<close>.\<close>

datatype log_record =
    LowRagasScore real real string string
  | LowQualityResponse string string real real "string option"

text \<open>\<^verbatim>\<open>config.Settings\<close>: the three settings the handlers read.\<close>

record settings =
  knowledge_graph_api_url :: string
  max_conversation_turns :: int
  guardrail_enabled :: bool

definition FAITHFULNESS_THRESHOLD :: real where
  "FAITHFULNESS_THRESHOLD = 0.8"

definition RELEVANCE_THRESHOLD :: real where
  "RELEVANCE_THRESHOLD = 0.8"

text \<open>
  The collaborators that are parameters. The network clients may fail; the three
  functions of \<^verbatim>\<open>prepare\<close> are pure transformations. A dictionary returned by a
  collaborator is a map from its keys; a score is a real number, the value of the
  Python float. \<open>uuid4\<close> and \<open>now\<close> are the values
  \<^verbatim>\<open>uuid.uuid4()\<close> and \<^verbatim>\<open>datetime.datetime.now()\<close> give in this turn; \<open>db_new_id n\<close> is the
  identifier the store gives to the Response row inserted when it holds \<open>n\<close> rows.
\<close>

record env =
  config_settings :: settings
  check_rate_limit :: "string \<Rightarrow> error option"
  translate :: "string \<Rightarrow> string \<Rightarrow> error + (string \<rightharpoonup> string)"
  guardrails :: "string option \<Rightarrow> error + guardrail_result"
  request_prepare :: "string option \<Rightarrow> products \<Rightarrow> string"
  kg_post :: "string \<Rightarrow> post_data \<Rightarrow> error + kg_payload"
  response_prepare :: "string \<Rightarrow> kg_payload \<Rightarrow> products \<Rightarrow> string \<Rightarrow> chat_response"
  format_references :: "string \<Rightarrow> string"
  evaluate_with_ragas :: "string \<Rightarrow> string \<Rightarrow> error + (string \<rightharpoonup> real)"
  uuid4 :: string
  now :: timestamp
  db_new_id :: "nat \<Rightarrow> string"

text \<open>The state: the four tables, the calls made so far, the log and the four gauges of
  \<^verbatim>\<open>metrics.py\<close>.\<close>

record state =
  users :: "user_row list"
  chats :: "chat_row list"
  responses :: "response_row list"
  references :: "reference_row list"
  calls :: "call list"
  log :: "log_record list"
  faithfulness_gauge :: real
  answer_relevance_gauge :: real
  context_precision_gauge :: real
  similarity_gauge :: real

subsection \<open>The persistence gateway and the access validator\<close>

text \<open>Modelled from the spec: \<^verbatim>\<open>DbFeedbackInterface.insert_user\<close> is missing. The email is
  the unique key of a user; a first-seen email creates the row, a known one gives
  \<^verbatim>\<open>None\<close>.\<close>

definition insert_user :: "state \<Rightarrow> string \<Rightarrow> user_row option \<times> state" where
  "insert_user s e =
     (case find (\<lambda>u. u_email u = e) (users s) of
        Some u \<Rightarrow> (None, s)
      | None \<Rightarrow>
          (let u = \<lparr>meta_user_id = Suc (length (users s)), u_email = e\<rparr>
           in (Some u, s\<lparr>users := users s @ [u]\<rparr>)))"

text \<open>Modelled from the spec: \<^verbatim>\<open>DbFeedbackInterface.get_user_by_email\<close> is missing.\<close>

definition get_user_by_email :: "state \<Rightarrow> string \<Rightarrow> user_row option" where
  "get_user_by_email s e = find (\<lambda>u. u_email u = e) (users s)"

text \<open>Modelled from the spec: \<^verbatim>\<open>validation.validate_chat_existence_access\<close> is missing
  (spec 4.2): \<open>NotFound\<close> if the chat row is absent, \<open>AccessDenied\<close> if it is owned by
  another user. \<open>None\<close> is the normal return.\<close>

definition validate_chat_existence_access :: "state \<Rightarrow> string \<Rightarrow> nat \<Rightarrow> error option" where
  "validate_chat_existence_access s chat_id uid =
     (case find (\<lambda>c. c_id c = chat_id) (chats s) of
        None \<Rightarrow> Some NotFound
      | Some c \<Rightarrow> if c_meta_user_id c = uid then None else Some AccessDenied)"

text \<open>Modelled from the spec: \<^verbatim>\<open>DbFeedbackInterface.get_responses_by_chat_id\<close> is missing.
  The responses of the chat by creation time, oldest or newest first, then offset and
  limit.\<close>

definition get_responses_by_chat_id ::
  "state \<Rightarrow> string \<Rightarrow> int \<Rightarrow> int \<Rightarrow> order_by \<Rightarrow> response_row list" where
  "get_responses_by_chat_id s chat_id limit offset ob =
     (let rows = sort_key r_createdAt (filter (\<lambda>r. r_chat_id r = chat_id) (responses s));
          ordered = (case ob of Asc \<Rightarrow> rows | Desc \<Rightarrow> rev rows)
      in take (nat limit) (drop (nat offset) ordered))"

text \<open>Modelled from the spec: \<^verbatim>\<open>DbFeedbackInterface.get_response_by_id\<close> is missing. Its
  only argument is the response identifier.\<close>

definition get_response_by_id :: "state \<Rightarrow> string \<Rightarrow> response_row option" where
  "get_response_by_id s rid = find (\<lambda>r. r_id r = rid) (responses s)"

text \<open>Modelled from the spec: \<^verbatim>\<open>DbFeedbackInterface.update_response_rating\<close> is missing.
  It sets the rating of the response with this identifier and returns the row, or
  \<^verbatim>\<open>None\<close> when there is no such response.\<close>

definition update_response_rating ::
  "state \<Rightarrow> string \<Rightarrow> int option \<Rightarrow> response_row option \<times> state" where
  "update_response_rating s rid v =
     (let s1 = s\<lparr>calls := calls s @ [UpdateResponseRating rid v]\<rparr>
      in case find (\<lambda>r. r_id r = rid) (responses s) of
           None \<Rightarrow> (None, s1)
         | Some r \<Rightarrow>
             (Some (r\<lparr>r_rating := v\<rparr>),
              s1\<lparr>responses :=
                   map (\<lambda>r. if r_id r = rid then r\<lparr>r_rating := v\<rparr> else r) (responses s)\<rparr>))"

text \<open>Modelled from the spec: \<^verbatim>\<open>DbFeedbackInterface.insert_response\<close> is missing. The
  store chooses the identifier and the creation time of the new row.\<close>

definition insert_response ::
  "env \<Rightarrow> state \<Rightarrow> string \<Rightarrow> string \<Rightarrow> string \<Rightarrow> string \<Rightarrow> kg_payload \<Rightarrow> int option
     \<Rightarrow> response_row \<times> state" where
  "insert_response e s chat_id user_input query outp original_response rtg =
     (let row = \<lparr>r_id = db_new_id e (length (responses s)), r_chat_id = chat_id,
                 r_user_input = user_input, r_query = query, r_output = outp,
                 r_original_response = original_response, r_rating = rtg,
                 r_createdAt = now e\<rparr>
      in (row, s\<lparr>responses := responses s @ [row],
                 calls := calls s @ [InsertResponse row]\<rparr>))"

text \<open>Modelled from the spec: \<^verbatim>\<open>DbFeedbackInterface.insert_response_reference\<close> is
  missing.\<close>

definition insert_response_reference ::
  "state \<Rightarrow> string \<Rightarrow> string \<Rightarrow> nat \<Rightarrow> string \<Rightarrow> state" where
  "insert_response_reference s rid rty i resp_id =
     (let row = \<lparr>reference_id = rid, reference_type = rty, idx = i, response_id = resp_id\<rparr>
      in s\<lparr>references := references s @ [row],
           calls := calls s @ [InsertResponseReference row]\<rparr>)"

subsection \<open>\<^verbatim>\<open>create_chat_response\<close>\<close>

text \<open>Lines 174--176 (and 58--60, 101--103, 124--126): insert the user, and read the
  row when the insert gave \<^verbatim>\<open>None\<close>.\<close>

definition resolve_user :: "state \<Rightarrow> string \<Rightarrow> user_row option \<times> state" where
  "resolve_user s e =
     (case insert_user s e of
        (Some u, s1) \<Rightarrow> (Some u, s1)
      | (None, s1) \<Rightarrow> (get_user_by_email s1 e, s1))"

text \<open>A turn either returns early with a response or goes on with the source language
  and the query.\<close>

datatype admission_outcome =
    Early chat_response
  | Proceed string "string option"

definition SENTINEL_ID :: string where
  "SENTINEL_ID = ''00000000-0000-0000-0000-000000000000''"

definition LANGUAGE_NOT_SUPPORTED :: string where
  "LANGUAGE_NOT_SUPPORTED =
     ''Language not supported. Supported languages are English, German and French''"

text \<open>Lines 205--216: the optional guardrail. \<^verbatim>\<open>Settings\<close> declares
  \<^verbatim>\<open>guardrail_enabled\<close>, so the default of the \<^verbatim>\<open>getattr\<close> is never taken. The
  guardrail's result is a dictionary; \<open>message g = None\<close> says that it has no key
  \<^verbatim>\<open>message\<close>, and then \<^verbatim>\<open>guardrail_result["message"]\<close> of line 213 raises.\<close>

definition guardrail_check ::
  "env \<Rightarrow> state \<Rightarrow> chat_message \<Rightarrow> string \<Rightarrow> string option
     \<Rightarrow> (error + admission_outcome) \<times> state" where
  "guardrail_check e s request source_lang query =
     (if guardrail_enabled (config_settings e) then
        (let s1 = s\<lparr>calls := calls s @ [Guardrails query]\<rparr>
         in case guardrails e query of
              Inl err \<Rightarrow> (Inl err, s1)
            | Inr guardrail_result \<Rightarrow>
                if \<not> relevant guardrail_result then
                  (case message guardrail_result of
                     None \<Rightarrow> (Inl (KeyError ''message''), s1)
                   | Some m \<Rightarrow>
                       (Inr (Early \<lparr>cr_id = SENTINEL_ID, cr_createdAt = now e,
                                    cr_input = content request, cr_output = m,
                                    cr_references = []\<rparr>), s1))
                else (Inr (Proceed source_lang query), s1))
      else (Inr (Proceed source_lang query), s))"

text \<open>Lines 174--216: user, access, rate limit, language detection, guardrail.\<close>

definition create_chat_response_admission ::
  "env \<Rightarrow> state \<Rightarrow> string \<Rightarrow> chat_message \<Rightarrow> auth_user
     \<Rightarrow> (error + admission_outcome) \<times> state" where
  "create_chat_response_admission e s chatId request user =
     (case resolve_user s (email user) of
        (None, s1) \<Rightarrow> (Inl (AttributeError ''meta_user_id''), s1)
      | (Some user_obj, s1) \<Rightarrow>
     (case validate_chat_existence_access s1 chatId (meta_user_id user_obj) of
        Some err \<Rightarrow> (Inl err, s1)
      | None \<Rightarrow>
     (case check_rate_limit e (email user) of
        Some err \<Rightarrow> (Inl err, s1)
      | None \<Rightarrow>
     (let s2 = s1\<lparr>calls := calls s1 @ [Translate (content request) ''en'']\<rparr>
      in case translate e (content request) ''en'' of
           Inl err \<Rightarrow> (Inl err, s2)
         | Inr translation \<Rightarrow>
             (let unsupported =
                    (Inr (Early \<lparr>cr_id = SENTINEL_ID, cr_createdAt = now e,
                                 cr_input = content request,
                                 cr_output = LANGUAGE_NOT_SUPPORTED,
                                 cr_references = []\<rparr>), s2)
              in case translation ''source_lang'' of
                   None \<Rightarrow> unsupported
                 | Some source_lang \<Rightarrow>
                     if source_lang = ''en'' then
                       guardrail_check e s2 request source_lang (Some (content request))
                     else if source_lang = ''de'' \<or> source_lang = ''fr'' then
                       guardrail_check e s2 request source_lang
                         (translation ''translated_text'')
                     else unsupported)))))"

text \<open>Lines 222 and 230--235: each prior response gives a user entry and an assistant
  entry; the responses are taken in reverse. The \<^verbatim>\<open>model_validate\<close> of line 231
  computes a value that is never used and is left out.\<close>

definition conversation_elements :: "response_row \<Rightarrow> conversation_element list" where
  "conversation_elements response =
     [\<lparr>role = ''user'', element_content = r_query response\<rparr>,
      \<lparr>role = ''assistant'', element_content = r_output response\<rparr>]"

definition conversation_history_of :: "response_row list \<Rightarrow> conversation_element list" where
  "conversation_history_of old_responses =
     concat (map conversation_elements (rev old_responses))"

text \<open>Lines 259--265: translate the answer back unless the source language is the
  working language.\<close>

definition translate_back ::
  "env \<Rightarrow> state \<Rightarrow> string \<Rightarrow> chat_response \<Rightarrow> (error + chat_response) \<times> state" where
  "translate_back e s source_lang chat_response =
     (if source_lang \<noteq> ''en'' then
        (let s1 = s\<lparr>calls := calls s @ [Translate (cr_output chat_response) source_lang]\<rparr>
         in case translate e (cr_output chat_response) source_lang of
              Inl err \<Rightarrow> (Inl err, s1)
            | Inr translation_to_original \<Rightarrow>
                (Inr (chat_response\<lparr>cr_output :=
                        (case translation_to_original ''translated_text'' of
                           None \<Rightarrow> cr_output chat_response
                         | Some t \<Rightarrow> t)\<rparr>), s1))
      else (Inr chat_response, s))"

text \<open>Lines 281--287: the loop over \<^verbatim>\<open>enumerate(chat_response.references)\<close>.\<close>

definition insert_references :: "state \<Rightarrow> string \<Rightarrow> (nat \<times> reference) list \<Rightarrow> state" where
  "insert_references s resp_id irs =
     foldl (\<lambda>st (i, reference).
              insert_response_reference st (ref_id reference) (ref_type reference) i resp_id)
       s irs"

text \<open>Lines 218--287: prepare the query, build the history, ask the engine, compose,
  translate back, reformat, persist.\<close>

definition create_chat_response_answer ::
  "env \<Rightarrow> state \<Rightarrow> string \<Rightarrow> chat_message \<Rightarrow> products \<times> products \<Rightarrow> string
     \<Rightarrow> string option \<Rightarrow> (error + chat_response) \<times> state" where
  "create_chat_response_answer e s chatId request products source_lang query0 =
     (let (unique_products, all_products) = products;
          query = request_prepare e query0 all_products;
          temp_response_id = uuid4 e;
          old_responses =
            get_responses_by_chat_id s chatId (max_conversation_turns (config_settings e))
              0 Desc;
          conversation_history = conversation_history_of old_responses;
          search_local_url = knowledge_graph_api_url (config_settings e) @ ''/search/local'';
          pd = \<lparr>pd_message = \<lparr>role = ''assistant'', element_content = query\<rparr>,
                pd_stream = stream request, pd_temperature = 0.5, pd_max_tokens = 200,
                pd_conversation_history = conversation_history\<rparr>;
          s1 = s\<lparr>calls := calls s @ [KgPost search_local_url pd]\<rparr>
      in case kg_post e search_local_url pd of
           Inl err \<Rightarrow> (Inl err, s1)
         | Inr knowledge_graph_response \<Rightarrow>
             (case translate_back e s1 source_lang
                     (response_prepare e (content request) knowledge_graph_response
                        unique_products temp_response_id) of
                (Inl err, s2) \<Rightarrow> (Inl err, s2)
              | (Inr translated, s2) \<Rightarrow>
                  (let chat_response =
                         translated\<lparr>cr_output := format_references e (cr_output translated)\<rparr>;
                       (response_obj, s3) =
                         insert_response e s2 chatId (cr_input chat_response) query
                           (cr_output chat_response) knowledge_graph_response None;
                       chat_response' =
                         chat_response\<lparr>cr_id := r_id response_obj,
                                        cr_createdAt := r_createdAt response_obj\<rparr>
                   in (Inr chat_response',
                       insert_references s3 (r_id response_obj)
                         (enumerate 0 (cr_references chat_response'))))))"

text \<open>Lines 289--309: score the answer, set the gauges, log a low score. Nothing here
  is inside a \<^verbatim>\<open>try\<close>.\<close>

definition create_chat_response_scoring ::
  "env \<Rightarrow> state \<Rightarrow> chat_message \<Rightarrow> chat_response \<Rightarrow> (error + unit) \<times> state" where
  "create_chat_response_scoring e s request chat_response =
     (let s1 = s\<lparr>calls := calls s @
                   [EvaluateWithRagas (content request) (cr_output chat_response)]\<rparr>
      in case evaluate_with_ragas e (content request) (cr_output chat_response) of
           Inl err \<Rightarrow> (Inl err, s1)
         | Inr ragas_scores \<Rightarrow>
      (case ragas_scores ''faithfulness'' of
         None \<Rightarrow> (Inl (KeyError ''faithfulness''), s1)
       | Some faithfulness \<Rightarrow>
      (case ragas_scores ''answer_relevance'' of
         None \<Rightarrow> (Inl (KeyError ''answer_relevance''), s1)
       | Some answer_relevance \<Rightarrow>
      (case ragas_scores ''context_precision'' of
         None \<Rightarrow> (Inl (KeyError ''context_precision''), s1)
       | Some context_precision \<Rightarrow>
      (let similarity = ragas_scores ''similarity'';
           s2 = s1\<lparr>faithfulness_gauge := faithfulness,
                   answer_relevance_gauge := answer_relevance,
                   context_precision_gauge := context_precision\<rparr>;
           s3 = (case similarity of
                   None \<Rightarrow> s2
                 | Some v \<Rightarrow> s2\<lparr>similarity_gauge := v\<rparr>);
           s4 = (if faithfulness < FAITHFULNESS_THRESHOLD
                    \<or> answer_relevance < RELEVANCE_THRESHOLD
                 then s3\<lparr>log := log s3 @
                        [LowRagasScore faithfulness answer_relevance (content request)
                           (cr_output chat_response),
                         LowQualityResponse (content request) (cr_output chat_response)
                           faithfulness answer_relevance None]\<rparr>
                 else s3)
       in (Inr (), s4))))))"

text \<open>Lines 146--311: the handler.\<close>

definition create_chat_response ::
  "env \<Rightarrow> state \<Rightarrow> string \<Rightarrow> chat_message \<Rightarrow> auth_user \<Rightarrow> products \<times> products
     \<Rightarrow> (error + chat_response) \<times> state" where
  "create_chat_response e s chatId request user products =
     (case create_chat_response_admission e s chatId request user of
        (Inl err, s1) \<Rightarrow> (Inl err, s1)
      | (Inr (Early chat_response), s1) \<Rightarrow> (Inr chat_response, s1)
      | (Inr (Proceed source_lang query), s1) \<Rightarrow>
          (case create_chat_response_answer e s1 chatId request products source_lang query of
             (Inl err, s2) \<Rightarrow> (Inl err, s2)
           | (Inr chat_response, s2) \<Rightarrow>
               (case create_chat_response_scoring e s2 request chat_response of
                  (Inl err, s3) \<Rightarrow> (Inl err, s3)
                | (Inr u, s3) \<Rightarrow> (Inr chat_response, s3))))"

subsection \<open>The rating handlers\<close>

text \<open>Lines 337--341, 381--385, 424--428 and 461--465: the user is read, not inserted,
  and the chat of the path is validated.\<close>

definition rating_access :: "state \<Rightarrow> string \<Rightarrow> auth_user \<Rightarrow> error option" where
  "rating_access s chatId user =
     (case get_user_by_email s (email user) of
        None \<Rightarrow> Some (AttributeError ''meta_user_id'')
      | Some user_obj \<Rightarrow> validate_chat_existence_access s chatId (meta_user_id user_obj))"

definition get_rating :: "state \<Rightarrow> string \<Rightarrow> string \<Rightarrow> auth_user \<Rightarrow> error + rating_object" where
  "get_rating s chatId responseId user =
     (case rating_access s chatId user of
        Some err \<Rightarrow> Inl err
      | None \<Rightarrow>
          (case get_response_by_id s responseId of
             None \<Rightarrow> Inl (HTTPException 404 ''Response not found'')
           | Some response_obj \<Rightarrow>
               (case r_rating response_obj of
                  None \<Rightarrow> Inr \<lparr>rating = None\<rparr>
                | Some v \<Rightarrow> Inr \<lparr>rating = Some v\<rparr>)))"

text \<open>\<^verbatim>\<open>rating_request.rating.value\<close> is evaluated before the update is called; on a
  request without a rating it raises.\<close>

definition create_rating ::
  "state \<Rightarrow> string \<Rightarrow> string \<Rightarrow> rating_object \<Rightarrow> auth_user
     \<Rightarrow> (error + rating_object) \<times> state" where
  "create_rating s chatId responseId rating_request user =
     (case rating_access s chatId user of
        Some err \<Rightarrow> (Inl err, s)
      | None \<Rightarrow>
          (case rating rating_request of
             None \<Rightarrow> (Inl (AttributeError ''value''), s)
           | Some v \<Rightarrow>
               (case update_response_rating s responseId (Some v) of
                  (None, s1) \<Rightarrow> (Inl (HTTPException 404 ''Response not found''), s1)
                | (Some response_obj, s1) \<Rightarrow>
                    (Inr \<lparr>rating = r_rating response_obj\<rparr>, s1))))"

definition update_rating ::
  "state \<Rightarrow> string \<Rightarrow> string \<Rightarrow> rating_object \<Rightarrow> auth_user
     \<Rightarrow> (error + rating_object) \<times> state" where
  "update_rating s chatId responseId rating_request user =
     (case rating_access s chatId user of
        Some err \<Rightarrow> (Inl err, s)
      | None \<Rightarrow>
          (case rating rating_request of
             None \<Rightarrow> (Inl (AttributeError ''value''), s)
           | Some v \<Rightarrow>
               (case update_response_rating s responseId (Some v) of
                  (None, s1) \<Rightarrow> (Inl (HTTPException 404 ''Response not found''), s1)
                | (Some response_obj, s1) \<Rightarrow>
                    (Inr \<lparr>rating = r_rating response_obj\<rparr>, s1))))"

definition delete_rating ::
  "state \<Rightarrow> string \<Rightarrow> string \<Rightarrow> auth_user \<Rightarrow> (error + unit) \<times> state" where
  "delete_rating s chatId responseId user =
     (case rating_access s chatId user of
        Some err \<Rightarrow> (Inl err, s)
      | None \<Rightarrow>
          (case update_response_rating s responseId None of
             (None, s1) \<Rightarrow> (Inl (HTTPException 404 ''Response not found''), s1)
           | (Some response_obj, s1) \<Rightarrow> (Inr (), s1)))"

subsection \<open>Describing a turn\<close>

text \<open>The definitions of this subsection are not part of the handlers. They name what a
  turn computes, so that the properties below can speak about it: the calls a handler
  added to the state, and the values of lines 186--287 as functions of the turn's
  inputs.\<close>

text \<open>The calls made between two states of one run.\<close>

definition new_calls :: "state \<Rightarrow> state \<Rightarrow> call list" where
  "new_calls s s' = drop (length (calls s)) (calls s')"

text \<open>The Reference row of line 282 for the pair \<open>(idx, reference)\<close>.\<close>

definition reference_row_of :: "string \<Rightarrow> nat \<times> reference \<Rightarrow> reference_row" where
  "reference_row_of resp_id ir =
     \<lparr>reference_id = ref_id (snd ir), reference_type = ref_type (snd ir), idx = fst ir,
      response_id = resp_id\<rparr>"

text \<open>The query of lines 188--191 for a supported source language.\<close>

definition detected_query :: "chat_message \<Rightarrow> (string \<rightharpoonup> string) \<Rightarrow> string \<Rightarrow> string option" where
  "detected_query request translation source_lang =
     (if source_lang = ''en'' then Some (content request)
      else translation ''translated_text'')"

text \<open>The guardrail call of line 207, made only when the guardrail is enabled, and
  whether the guardrail lets the query through.\<close>

definition guard_call :: "env \<Rightarrow> string option \<Rightarrow> call list" where
  "guard_call e query = (if guardrail_enabled (config_settings e) then [Guardrails query] else [])"

definition guard_passes :: "env \<Rightarrow> string option \<Rightarrow> bool" where
  "guard_passes e query =
     (if guardrail_enabled (config_settings e)
      then (case guardrails e query of Inl err \<Rightarrow> False | Inr g \<Rightarrow> relevant g)
      else True)"

text \<open>The response of the two early returns (lines 193--203 and 209--216).\<close>

definition early_response :: "env \<Rightarrow> chat_message \<Rightarrow> string \<Rightarrow> chat_response" where
  "early_response e request outp =
     \<lparr>cr_id = SENTINEL_ID, cr_createdAt = now e, cr_input = content request,
      cr_output = outp, cr_references = []\<rparr>"

text \<open>The URL and the body of the POST (lines 237--246).\<close>

definition search_local_url :: "env \<Rightarrow> string" where
  "search_local_url e = knowledge_graph_api_url (config_settings e) @ ''/search/local''"

definition posted_data ::
  "env \<Rightarrow> state \<Rightarrow> string \<Rightarrow> chat_message \<Rightarrow> products \<times> products \<Rightarrow> string option
     \<Rightarrow> post_data" where
  "posted_data e s chatId request products query0 =
     \<lparr>pd_message = \<lparr>role = ''assistant'',
                      element_content = request_prepare e query0 (snd products)\<rparr>,
      pd_stream = stream request, pd_temperature = 0.5, pd_max_tokens = 200,
      pd_conversation_history =
        conversation_history_of
          (get_responses_by_chat_id s chatId (max_conversation_turns (config_settings e))
             0 Desc)\<rparr>"

text \<open>The composer's response (lines 252--257), the answer text after lines 259--267,
  and the call of line 260.\<close>

definition composed ::
  "env \<Rightarrow> chat_message \<Rightarrow> products \<times> products \<Rightarrow> kg_payload \<Rightarrow> chat_response" where
  "composed e request products payload =
     response_prepare e (content request) payload (fst products) (uuid4 e)"

definition back_translated :: "env \<Rightarrow> string \<Rightarrow> string \<Rightarrow> string" where
  "back_translated e source_lang outp =
     (if source_lang = ''en'' then outp
      else (case translate e outp source_lang of
              Inl err \<Rightarrow> outp
            | Inr t \<Rightarrow> (case t ''translated_text'' of None \<Rightarrow> outp | Some x \<Rightarrow> x)))"

definition final_output :: "env \<Rightarrow> string \<Rightarrow> string \<Rightarrow> string" where
  "final_output e source_lang outp = format_references e (back_translated e source_lang outp)"

definition back_translation :: "string \<Rightarrow> string \<Rightarrow> call list" where
  "back_translation source_lang outp =
     (if source_lang \<noteq> ''en'' then [Translate outp source_lang] else [])"

text \<open>The row of line 269, the response returned at line 311 and the writes of lines
  269--287.\<close>

definition persisted_row ::
  "env \<Rightarrow> state \<Rightarrow> string \<Rightarrow> chat_message \<Rightarrow> products \<times> products \<Rightarrow> string
     \<Rightarrow> string option \<Rightarrow> kg_payload \<Rightarrow> response_row" where
  "persisted_row e s chatId request products source_lang query0 payload =
     \<lparr>r_id = db_new_id e (length (responses s)), r_chat_id = chatId,
      r_user_input = cr_input (composed e request products payload),
      r_query = request_prepare e query0 (snd products),
      r_output = final_output e source_lang (cr_output (composed e request products payload)),
      r_original_response = payload, r_rating = None, r_createdAt = now e\<rparr>"

definition answer_of ::
  "env \<Rightarrow> state \<Rightarrow> string \<Rightarrow> chat_message \<Rightarrow> products \<times> products \<Rightarrow> string
     \<Rightarrow> string option \<Rightarrow> kg_payload \<Rightarrow> chat_response" where
  "answer_of e s chatId request products lang query0 payload =
     (composed e request products payload)
       \<lparr>cr_output := r_output (persisted_row e s chatId request products lang query0 payload),
        cr_id := r_id (persisted_row e s chatId request products lang query0 payload),
        cr_createdAt := now e\<rparr>"

definition persist_calls ::
  "env \<Rightarrow> state \<Rightarrow> string \<Rightarrow> chat_message \<Rightarrow> products \<times> products \<Rightarrow> string
     \<Rightarrow> string option \<Rightarrow> kg_payload \<Rightarrow> call list" where
  "persist_calls e s chatId request products lang query0 payload =
     InsertResponse (persisted_row e s chatId request products lang query0 payload) #
     map (\<lambda>ir. InsertResponseReference
            (reference_row_of
               (r_id (persisted_row e s chatId request products lang query0 payload)) ir))
       (enumerate 0 (cr_references (composed e request products payload)))"

text \<open>The source language was detected and supported and the guardrail, if enabled,
  let the query through; the calls made up to there.\<close>

definition admitted :: "env \<Rightarrow> chat_message \<Rightarrow> (string \<rightharpoonup> string) \<Rightarrow> string \<Rightarrow> bool" where
  "admitted e request translation lang \<longleftrightarrow>
     translate e (content request) ''en'' = Inr translation \<and>
     translation ''source_lang'' = Some lang \<and>
     (lang = ''en'' \<or> lang = ''de'' \<or> lang = ''fr'') \<and>
     guard_passes e (detected_query request translation lang)"

definition admission_calls :: "env \<Rightarrow> chat_message \<Rightarrow> (string \<rightharpoonup> string) \<Rightarrow> string \<Rightarrow> call list" where
  "admission_calls e request translation lang =
     Translate (content request) ''en'' # guard_call e (detected_query request translation lang)"

text \<open>What lines 304--309 log for the scores \<open>f\<close> and \<open>ar\<close>.\<close>

definition low_quality_records :: "real \<Rightarrow> real \<Rightarrow> string \<Rightarrow> string \<Rightarrow> log_record list" where
  "low_quality_records f ar question answer =
     (if f < FAITHFULNESS_THRESHOLD \<or> ar < RELEVANCE_THRESHOLD
      then [LowRagasScore f ar question answer, LowQualityResponse question answer f ar None]
      else [])"

text \<open>The calls that insert a Response or a Reference row, and the calls to the
  translator.\<close>

definition is_insert :: "call \<Rightarrow> bool" where
  "is_insert c =
     (case c of InsertResponse row \<Rightarrow> True | InsertResponseReference row \<Rightarrow> True | _ \<Rightarrow> False)"

definition is_translation :: "call \<Rightarrow> bool" where
  "is_translation c = (case c of Translate text target \<Rightarrow> True | _ \<Rightarrow> False)"

text \<open>What \<^verbatim>\<open>update_response_rating\<close> does to one row.\<close>

definition set_rating :: "string \<Rightarrow> int option \<Rightarrow> response_row \<Rightarrow> response_row" where
  "set_rating rid v r = (if r_id r = rid then r\<lparr>r_rating := v\<rparr> else r)"

subsection \<open>A concrete service\<close>

text \<open>The scenario of the spec (section 8): the user \<^verbatim>\<open>u@x.com\<close> owns the chat
  \<^verbatim>\<open>C1\<close>, which holds two earlier responses; the chat \<^verbatim>\<open>C2\<close> and its response
  \<^verbatim>\<open>b1\<close> belong to another user. The settings are the defaults of \<^verbatim>\<open>config.py\<close>.\<close>

definition ex_settings :: settings where
  "ex_settings = \<lparr>knowledge_graph_api_url = ''http://kg'', max_conversation_turns = 5,
                  guardrail_enabled = False\<rparr>"

definition ex_translate :: "string \<Rightarrow> string \<Rightarrow> error + (string \<rightharpoonup> string)" where
  "ex_translate text target =
     (if target = ''en'' then
        (if text = ''Que es X?'' then
           Inr [''source_lang'' \<mapsto> ''es'', ''translated_text'' \<mapsto> ''What is X?'']
         else if text = ''Was ist X?'' then
           Inr [''source_lang'' \<mapsto> ''de'', ''translated_text'' \<mapsto> ''What is X?'']
         else Inr [''source_lang'' \<mapsto> ''en'', ''translated_text'' \<mapsto> text])
      else Inr [''translated_text'' \<mapsto> ''X ist ein Widget.''])"

definition ex_guardrails :: "string option \<Rightarrow> error + guardrail_result" where
  "ex_guardrails q =
     Inr \<lparr>relevant = (q \<noteq> Some ''Tell me a joke''),
          message = Some ''I only answer product questions.''\<rparr>"

definition ex_response_prepare :: "string \<Rightarrow> kg_payload \<Rightarrow> products \<Rightarrow> string \<Rightarrow> chat_response" where
  "ex_response_prepare user_input payload unique_products rid =
     \<lparr>cr_id = rid, cr_createdAt = 0, cr_input = user_input,
      cr_output = ''X is a widget.'',
      cr_references = [\<lparr>ref_id = ''r1'', ref_type = ''doc''\<rparr>,
                       \<lparr>ref_id = ''r2'', ref_type = ''product''\<rparr>]\<rparr>"

definition ex_scores :: "string \<rightharpoonup> real" where
  "ex_scores = [''faithfulness'' \<mapsto> 0.5, ''answer_relevance'' \<mapsto> 0.9,
                ''context_precision'' \<mapsto> 0.7]"

definition ex_env :: env where
  "ex_env =
     \<lparr>config_settings = ex_settings,
      check_rate_limit = (\<lambda>key. None),
      translate = ex_translate,
      guardrails = ex_guardrails,
      request_prepare = (\<lambda>q ps. case q of None \<Rightarrow> [] | Some t \<Rightarrow> t),
      kg_post = (\<lambda>url pd. Inr ''payload''),
      response_prepare = ex_response_prepare,
      format_references = (\<lambda>t. t),
      evaluate_with_ragas = (\<lambda>q a. Inr ex_scores),
      uuid4 = ''tmp'',
      now = 100,
      db_new_id = (\<lambda>n. ''resp-'' @ replicate n CHR ''i'')\<rparr>"

definition ex_state :: state where
  "ex_state =
     \<lparr>users = [\<lparr>meta_user_id = 1, u_email = ''u@x.com''\<rparr>,
               \<lparr>meta_user_id = 2, u_email = ''v@x.com''\<rparr>],
      chats = [\<lparr>c_id = ''C1'', c_meta_user_id = 1, c_createdAt = 10\<rparr>,
               \<lparr>c_id = ''C2'', c_meta_user_id = 2, c_createdAt = 11\<rparr>],
      responses =
        [\<lparr>r_id = ''a1'', r_chat_id = ''C1'', r_user_input = ''i1'', r_query = ''q1'',
          r_output = ''o1'', r_original_response = ''p1'', r_rating = None,
          r_createdAt = 20\<rparr>,
         \<lparr>r_id = ''b1'', r_chat_id = ''C2'', r_user_input = ''i2'', r_query = ''q2'',
          r_output = ''o2'', r_original_response = ''p2'', r_rating = Some 1,
          r_createdAt = 25\<rparr>,
         \<lparr>r_id = ''a2'', r_chat_id = ''C1'', r_user_input = ''i3'', r_query = ''q3'',
          r_output = ''o3'', r_original_response = ''p3'', r_rating = None,
          r_createdAt = 30\<rparr>],
      references = [], calls = [], log = [],
      faithfulness_gauge = 0, answer_relevance_gauge = 0,
      context_precision_gauge = 0, similarity_gauge = 0\<rparr>"

definition ex_user :: auth_user where
  "ex_user = \<lparr>email = ''u@x.com''\<rparr>"

definition ex_products :: "products \<times> products" where
  "ex_products = ([''X''], [''X'', ''X''])"

definition ex_env_guarded :: env where
  "ex_env_guarded = ex_env\<lparr>config_settings := ex_settings\<lparr>guardrail_enabled := True\<rparr>\<rparr>"

definition ex_env_one_turn :: env where
  "ex_env_one_turn = ex_env\<lparr>config_settings := ex_settings\<lparr>max_conversation_turns := 1\<rparr>\<rparr>"

text \<open>The same service with a scorer that raises. In \<^verbatim>\<open>api.py\<close> the name
  \<^verbatim>\<open>evaluate_with_ragas\<close> is neither defined nor imported, so the call of line 290 raises
  there as well.\<close>

definition ex_env_scoring_fails :: env where
  "ex_env_scoring_fails =
     ex_env\<lparr>evaluate_with_ragas := (\<lambda>q a. Inl (UpstreamFailure ''evaluate_with_ragas''))\<rparr>"

section \<open>Properties\<close>

subsection \<open>The shape of a run\<close>

lemma insert_references_eq:
  "insert_references s resp_id irs =
     s\<lparr>references := references s @ map (reference_row_of resp_id) irs,
       calls := calls s @ map (\<lambda>ir. InsertResponseReference (reference_row_of resp_id ir)) irs\<rparr>"
proof (induction irs arbitrary: s)
  case Nil
  show ?case by (simp add: insert_references_def)
next
  case (Cons ir irs)
  have step: "insert_references s resp_id (ir # irs) =
      insert_references (insert_response_reference s (ref_id (snd ir)) (ref_type (snd ir)) (fst ir) resp_id) resp_id irs"
    by (cases ir) (simp add: insert_references_def)
  show ?case
    unfolding step Cons.IH
    by (simp add: insert_response_reference_def reference_row_of_def Let_def)
qed

lemma resolve_user_frame:
  "resolve_user s e = (uo, s1) \<Longrightarrow> s1 = s\<lparr>users := users s1\<rparr>"
  by (auto simp: resolve_user_def insert_user_def Let_def split: option.splits prod.splits)

lemma guardrail_check_cases:
  assumes "guardrail_check e s request lang q = (r, s1)"
  obtains
    (disabled) "\<not> guardrail_enabled (config_settings e)"
      "r = Inr (Proceed lang q)" "s1 = s"
  | (failed) err where "guardrail_enabled (config_settings e)"
      "guardrails e q = Inl err" "r = Inl err"
      "s1 = s\<lparr>calls := calls s @ [Guardrails q]\<rparr>"
  | (no_message) g where "guardrail_enabled (config_settings e)"
      "guardrails e q = Inr g" "\<not> relevant g" "message g = None"
      "r = Inl (KeyError ''message'')"
      "s1 = s\<lparr>calls := calls s @ [Guardrails q]\<rparr>"
  | (rejected) g m where "guardrail_enabled (config_settings e)"
      "guardrails e q = Inr g" "\<not> relevant g" "message g = Some m"
      "r = Inr (Early \<lparr>cr_id = SENTINEL_ID, cr_createdAt = now e,
                        cr_input = content request, cr_output = m, cr_references = []\<rparr>)"
      "s1 = s\<lparr>calls := calls s @ [Guardrails q]\<rparr>"
  | (passed) g where "guardrail_enabled (config_settings e)"
      "guardrails e q = Inr g" "relevant g" "r = Inr (Proceed lang q)"
      "s1 = s\<lparr>calls := calls s @ [Guardrails q]\<rparr>"
  using assms
  by (auto simp: guardrail_check_def Let_def split: if_splits sum.splits option.splits)

lemma admission_cases:
  assumes "create_chat_response_admission e s chatId request user = (r, s1)"
  obtains
    (refused) err us where "r = Inl err" "s1 = s\<lparr>users := us\<rparr>"
  | (translate_failed) err us where
      "translate e (content request) ''en'' = Inl err" "r = Inl err"
      "s1 = s\<lparr>users := us, calls := calls s @ [Translate (content request) ''en'']\<rparr>"
  | (unsupported) translation us where
      "translate e (content request) ''en'' = Inr translation"
      "translation ''source_lang'' \<notin> {Some ''en'', Some ''de'', Some ''fr''}"
      "r = Inr (Early (early_response e request LANGUAGE_NOT_SUPPORTED))"
      "s1 = s\<lparr>users := us, calls := calls s @ [Translate (content request) ''en'']\<rparr>"
  | (guard_failed) translation lang err us where
      "translate e (content request) ''en'' = Inr translation"
      "translation ''source_lang'' = Some lang"
      "lang = ''en'' \<or> lang = ''de'' \<or> lang = ''fr''"
      "guardrail_enabled (config_settings e)"
      "guardrails e (detected_query request translation lang) = Inl err"
      "r = Inl err"
      "s1 = s\<lparr>users := us, calls := calls s @
              [Translate (content request) ''en'',
               Guardrails (detected_query request translation lang)]\<rparr>"
  | (guard_no_message) translation lang g us where
      "translate e (content request) ''en'' = Inr translation"
      "translation ''source_lang'' = Some lang"
      "lang = ''en'' \<or> lang = ''de'' \<or> lang = ''fr''"
      "guardrail_enabled (config_settings e)"
      "guardrails e (detected_query request translation lang) = Inr g"
      "\<not> relevant g" "message g = None"
      "r = Inl (KeyError ''message'')"
      "s1 = s\<lparr>users := us, calls := calls s @
              [Translate (content request) ''en'',
               Guardrails (detected_query request translation lang)]\<rparr>"
  | (guard_rejected) translation lang g m us where
      "translate e (content request) ''en'' = Inr translation"
      "translation ''source_lang'' = Some lang"
      "lang = ''en'' \<or> lang = ''de'' \<or> lang = ''fr''"
      "guardrail_enabled (config_settings e)"
      "guardrails e (detected_query request translation lang) = Inr g"
      "\<not> relevant g" "message g = Some m"
      "r = Inr (Early (early_response e request m))"
      "s1 = s\<lparr>users := us, calls := calls s @
              [Translate (content request) ''en'',
               Guardrails (detected_query request translation lang)]\<rparr>"
  | (proceed) translation lang us where
      "translate e (content request) ''en'' = Inr translation"
      "translation ''source_lang'' = Some lang"
      "lang = ''en'' \<or> lang = ''de'' \<or> lang = ''fr''"
      "guard_passes e (detected_query request translation lang)"
      "r = Inr (Proceed lang (detected_query request translation lang))"
      "s1 = s\<lparr>users := us, calls := calls s @
              Translate (content request) ''en'' #
              guard_call e (detected_query request translation lang)\<rparr>"
proof -
  obtain uo su where ru: "resolve_user s (email user) = (uo, su)"
    by (cases "resolve_user s (email user)")
  define us where "us = users su"
  have su: "su = s\<lparr>users := us\<rparr>"
    unfolding us_def using resolve_user_frame [OF ru] .
  define st where "st = s\<lparr>users := us, calls := calls s @ [Translate (content request) ''en'']\<rparr>"
  have st: "su\<lparr>calls := calls su @ [Translate (content request) ''en'']\<rparr> = st"
    unfolding st_def su by simp
  show thesis
  proof (cases uo)
    case None
    with assms ru su show thesis
      by (intro refused [of "AttributeError ''meta_user_id''" us])
         (auto simp: create_chat_response_admission_def)
  next
    case (Some user_obj)
    note uo = this
    show thesis
    proof (cases "validate_chat_existence_access su chatId (meta_user_id user_obj)")
      case (Some err)
      with assms ru su uo show thesis
        by (intro refused [of err us]) (auto simp: create_chat_response_admission_def)
    next
      case None
      note va = this
      show thesis
      proof (cases "check_rate_limit e (email user)")
        case (Some err)
        with assms ru su uo va show thesis
          by (intro refused [of err us]) (auto simp: create_chat_response_admission_def)
      next
        case None
        note rl = this
        show thesis
        proof (cases "translate e (content request) ''en''")
          case (Inl err)
          with assms ru uo va rl st show thesis
            by (intro translate_failed [of err us])
               (auto simp: create_chat_response_admission_def Let_def st_def)
        next
          case (Inr translation)
          note tr = this
          have unfolded: "create_chat_response_admission e s chatId request user =
              (case translation ''source_lang'' of
                   None \<Rightarrow> (Inr (Early (early_response e request LANGUAGE_NOT_SUPPORTED)), st)
                 | Some source_lang \<Rightarrow>
                     if source_lang = ''en'' then
                       guardrail_check e st request source_lang (Some (content request))
                     else if source_lang = ''de'' \<or> source_lang = ''fr'' then
                       guardrail_check e st request source_lang
                         (translation ''translated_text'')
                     else (Inr (Early (early_response e request LANGUAGE_NOT_SUPPORTED)), st))"
            unfolding st [symmetric] create_chat_response_admission_def Let_def early_response_def
            using ru uo va rl tr by simp
          show thesis
          proof (cases "translation ''source_lang''")
            case None
            with assms unfolded tr show thesis
              by (intro unsupported [of translation us]) (auto simp: st_def)
          next
            case (Some lang)
            note sl = this
            show thesis
            proof (cases "lang = ''en'' \<or> lang = ''de'' \<or> lang = ''fr''")
              case False
              with assms unfolded tr sl show thesis
                by (intro unsupported [of translation us]) (auto simp: st_def)
            next
              case True
              note ok = this
              let ?q = "detected_query request translation lang"
              have gg: "guardrail_check e st request lang ?q = (r, s1)"
                using assms unfolded sl ok by (auto simp: detected_query_def split: if_splits)
              from gg show thesis
              proof (cases rule: guardrail_check_cases)
                case disabled
                with tr sl ok show thesis
                  by (intro proceed [of translation lang us])
                     (auto simp: st_def guard_passes_def guard_call_def)
              next
                case (failed err)
                with tr sl ok show thesis
                  by (intro guard_failed [of translation lang err us]) (auto simp: st_def)
              next
                case (no_message g)
                with tr sl ok show thesis
                  by (intro guard_no_message [of translation lang g us]) (auto simp: st_def)
              next
                case (rejected g m)
                with tr sl ok show thesis
                  by (intro guard_rejected [of translation lang g m us])
                     (auto simp: st_def early_response_def)
              next
                case (passed g)
                with tr sl ok show thesis
                  by (intro proceed [of translation lang us])
                     (auto simp: st_def guard_passes_def guard_call_def)
              qed
            qed
          qed
        qed
      qed
    qed
  qed
qed

lemma translate_back_cases:
  assumes "translate_back e s lang cr = (r, s1)"
  obtains
    (failed) err where "lang \<noteq> ''en''" "translate e (cr_output cr) lang = Inl err"
      "r = Inl err" "s1 = s\<lparr>calls := calls s @ [Translate (cr_output cr) lang]\<rparr>"
  | (translated) "lang \<noteq> ''en'' \<longrightarrow> (\<exists>t. translate e (cr_output cr) lang = Inr t)"
      "r = Inr (cr\<lparr>cr_output := back_translated e lang (cr_output cr)\<rparr>)"
      "s1 = s\<lparr>calls := calls s @ back_translation lang (cr_output cr)\<rparr>"
  using assms
  by (auto simp: translate_back_def back_translation_def back_translated_def Let_def
           split: if_splits sum.splits)

lemma answer_cases:
  assumes "create_chat_response_answer e s chatId request products lang query0 = (r, s2)"
  obtains
    (kg_failed) err where
      "kg_post e (search_local_url e) (posted_data e s chatId request products query0) = Inl err"
      "r = Inl err"
      "s2 = s\<lparr>calls := calls s @
             [KgPost (search_local_url e) (posted_data e s chatId request products query0)]\<rparr>"
  | (back_failed) payload err where
      "kg_post e (search_local_url e) (posted_data e s chatId request products query0) = Inr payload"
      "lang \<noteq> ''en''"
      "translate e (cr_output (composed e request products payload)) lang = Inl err"
      "r = Inl err"
      "s2 = s\<lparr>calls := calls s @
             [KgPost (search_local_url e) (posted_data e s chatId request products query0),
              Translate (cr_output (composed e request products payload)) lang]\<rparr>"
  | (answered) payload where
      "kg_post e (search_local_url e) (posted_data e s chatId request products query0) = Inr payload"
      "lang \<noteq> ''en'' \<longrightarrow>
         (\<exists>t. translate e (cr_output (composed e request products payload)) lang = Inr t)"
      "r = Inr ((composed e request products payload)
                 \<lparr>cr_output := r_output (persisted_row e s chatId request products lang query0 payload),
                  cr_id := r_id (persisted_row e s chatId request products lang query0 payload),
                  cr_createdAt := now e\<rparr>)"
      "s2 = s\<lparr>responses := responses s @
                          [persisted_row e s chatId request products lang query0 payload],
               references := references s @
                 map (reference_row_of
                        (r_id (persisted_row e s chatId request products lang query0 payload)))
                   (enumerate 0 (cr_references (composed e request products payload))),
               calls := calls s @
                 [KgPost (search_local_url e) (posted_data e s chatId request products query0)] @
                 back_translation lang (cr_output (composed e request products payload)) @
                 [InsertResponse (persisted_row e s chatId request products lang query0 payload)] @
                 map (\<lambda>ir. InsertResponseReference
                        (reference_row_of
                          (r_id (persisted_row e s chatId request products lang query0 payload)) ir))
                   (enumerate 0 (cr_references (composed e request products payload)))\<rparr>"
proof -
  obtain unique_products all_products where p: "products = (unique_products, all_products)"
    by (cases products)
  let ?url = "search_local_url e"
  let ?pd = "posted_data e s chatId request products query0"
  let ?s1 = "s\<lparr>calls := calls s @ [KgPost ?url ?pd]\<rparr>"
  show thesis
  proof (cases "kg_post e ?url ?pd")
    case (Inl err)
    with assms p show thesis
      by (intro kg_failed [of err])
         (auto simp: create_chat_response_answer_def Let_def search_local_url_def
                     posted_data_def)
  next
    case (Inr payload)
    note kg = this
    let ?c = "composed e request products payload"
    obtain rb sb where tb: "translate_back e ?s1 lang ?c = (rb, sb)"
      by (cases "translate_back e ?s1 lang ?c")
    from tb show thesis
    proof (cases rule: translate_back_cases)
      case (failed err)
      with assms p kg tb show thesis
        by (intro back_failed [of payload err])
           (auto simp: create_chat_response_answer_def Let_def search_local_url_def
                       posted_data_def composed_def)
    next
      case translated
      with assms p kg tb show thesis
        by (intro answered [of payload])
           (auto simp: create_chat_response_answer_def Let_def search_local_url_def
                       posted_data_def composed_def persisted_row_def final_output_def
                       insert_response_def insert_references_eq)
    qed
  qed
qed

lemma scoring_cases:
  assumes "create_chat_response_scoring e s request cr = (r, s')"
  obtains
    (raised) err where
      "evaluate_with_ragas e (content request) (cr_output cr) = Inl err" "r = Inl err"
      "s' = s\<lparr>calls := calls s @ [EvaluateWithRagas (content request) (cr_output cr)]\<rparr>"
  | (missing) scores k where
      "evaluate_with_ragas e (content request) (cr_output cr) = Inr scores"
      "k = ''faithfulness'' \<or> k = ''answer_relevance'' \<or> k = ''context_precision''"
      "scores k = None" "r = Inl (KeyError k)"
      "s' = s\<lparr>calls := calls s @ [EvaluateWithRagas (content request) (cr_output cr)]\<rparr>"
  | (scored) scores f ar cp where
      "evaluate_with_ragas e (content request) (cr_output cr) = Inr scores"
      "scores ''faithfulness'' = Some f" "scores ''answer_relevance'' = Some ar"
      "scores ''context_precision'' = Some cp" "r = Inr ()"
      "s' = s\<lparr>calls := calls s @ [EvaluateWithRagas (content request) (cr_output cr)],
               log := log s @ low_quality_records f ar (content request) (cr_output cr),
               faithfulness_gauge := f, answer_relevance_gauge := ar,
               context_precision_gauge := cp,
               similarity_gauge :=
                 (case scores ''similarity'' of None \<Rightarrow> similarity_gauge s | Some v \<Rightarrow> v)\<rparr>"
proof (cases "evaluate_with_ragas e (content request) (cr_output cr)")
  case (Inl err)
  with assms show thesis
    by (intro raised [of err]) (auto simp: create_chat_response_scoring_def Let_def)
next
  case (Inr scores)
  note ev = this
  show thesis
  proof (cases "scores ''faithfulness''")
    case None
    with assms ev show thesis
      by (intro missing [of scores "''faithfulness''"])
         (auto simp: create_chat_response_scoring_def Let_def)
  next
    case (Some f)
    note f = this
    show thesis
    proof (cases "scores ''answer_relevance''")
      case None
      with assms ev f show thesis
        by (intro missing [of scores "''answer_relevance''"])
           (auto simp: create_chat_response_scoring_def Let_def)
    next
      case (Some ar)
      note ar = this
      show thesis
      proof (cases "scores ''context_precision''")
        case None
        with assms ev f ar show thesis
          by (intro missing [of scores "''context_precision''"])
             (auto simp: create_chat_response_scoring_def Let_def)
      next
        case (Some cp)
        with assms ev f ar show thesis
          by (intro scored [of scores f ar cp])
             (auto simp: create_chat_response_scoring_def Let_def low_quality_records_def
                   split: option.splits)
      qed
    qed
  qed
qed

lemma posted_data_frame [simp]:
  "posted_data e (s\<lparr>users := us, calls := cs\<rparr>) = posted_data e s"
  by (simp add: posted_data_def get_responses_by_chat_id_def fun_eq_iff)

lemma persisted_row_frame [simp]:
  "persisted_row e (s\<lparr>users := us, calls := cs\<rparr>) = persisted_row e s"
  by (simp add: persisted_row_def fun_eq_iff)

lemma run_cases:
  assumes "create_chat_response e s chatId request user products = (result, s')"
  obtains
    (refused) err us where "result = Inl err" "s' = s\<lparr>users := us\<rparr>"
  | (translate_failed) err us where
      "translate e (content request) ''en'' = Inl err" "result = Inl err"
      "s' = s\<lparr>users := us, calls := calls s @ [Translate (content request) ''en'']\<rparr>"
  | (unsupported) translation us where
      "translate e (content request) ''en'' = Inr translation"
      "translation ''source_lang'' \<notin> {Some ''en'', Some ''de'', Some ''fr''}"
      "result = Inr (early_response e request LANGUAGE_NOT_SUPPORTED)"
      "s' = s\<lparr>users := us, calls := calls s @ [Translate (content request) ''en'']\<rparr>"
  | (guard_failed) translation lang err us where
      "translate e (content request) ''en'' = Inr translation"
      "translation ''source_lang'' = Some lang"
      "lang = ''en'' \<or> lang = ''de'' \<or> lang = ''fr''"
      "guardrail_enabled (config_settings e)"
      "guardrails e (detected_query request translation lang) = Inl err"
      "result = Inl err"
      "s' = s\<lparr>users := us, calls := calls s @
              [Translate (content request) ''en'',
               Guardrails (detected_query request translation lang)]\<rparr>"
  | (guard_no_message) translation lang g us where
      "translate e (content request) ''en'' = Inr translation"
      "translation ''source_lang'' = Some lang"
      "lang = ''en'' \<or> lang = ''de'' \<or> lang = ''fr''"
      "guardrail_enabled (config_settings e)"
      "guardrails e (detected_query request translation lang) = Inr g"
      "\<not> relevant g" "message g = None"
      "result = Inl (KeyError ''message'')"
      "s' = s\<lparr>users := us, calls := calls s @
              [Translate (content request) ''en'',
               Guardrails (detected_query request translation lang)]\<rparr>"
  | (guard_rejected) translation lang g m us where
      "translate e (content request) ''en'' = Inr translation"
      "translation ''source_lang'' = Some lang"
      "lang = ''en'' \<or> lang = ''de'' \<or> lang = ''fr''"
      "guardrail_enabled (config_settings e)"
      "guardrails e (detected_query request translation lang) = Inr g"
      "\<not> relevant g" "message g = Some m"
      "result = Inr (early_response e request m)"
      "s' = s\<lparr>users := us, calls := calls s @
              [Translate (content request) ''en'',
               Guardrails (detected_query request translation lang)]\<rparr>"
  | (kg_failed) translation lang err us where
      "admitted e request translation lang"
      "kg_post e (search_local_url e)
         (posted_data e s chatId request products (detected_query request translation lang))
       = Inl err"
      "result = Inl err"
      "s' = s\<lparr>users := us, calls := calls s @ admission_calls e request translation lang @
              [KgPost (search_local_url e)
                 (posted_data e s chatId request products
                    (detected_query request translation lang))]\<rparr>"
  | (back_failed) translation lang payload err us where
      "admitted e request translation lang"
      "kg_post e (search_local_url e)
         (posted_data e s chatId request products (detected_query request translation lang))
       = Inr payload"
      "lang \<noteq> ''en''"
      "translate e (cr_output (composed e request products payload)) lang = Inl err"
      "result = Inl err"
      "s' = s\<lparr>users := us, calls := calls s @ admission_calls e request translation lang @
              [KgPost (search_local_url e)
                 (posted_data e s chatId request products
                    (detected_query request translation lang)),
               Translate (cr_output (composed e request products payload)) lang]\<rparr>"
  | (persisted) translation lang payload us s2 rs where
      "admitted e request translation lang"
      "kg_post e (search_local_url e)
         (posted_data e s chatId request products (detected_query request translation lang))
       = Inr payload"
      "lang \<noteq> ''en'' \<longrightarrow>
         (\<exists>t. translate e (cr_output (composed e request products payload)) lang = Inr t)"
      "s2 = s\<lparr>users := us,
               responses := responses s @
                 [persisted_row e s chatId request products lang
                    (detected_query request translation lang) payload],
               references := references s @
                 map (reference_row_of
                        (r_id (persisted_row e s chatId request products lang
                                 (detected_query request translation lang) payload)))
                   (enumerate 0 (cr_references (composed e request products payload))),
               calls := calls s @ admission_calls e request translation lang @
                 [KgPost (search_local_url e)
                    (posted_data e s chatId request products
                       (detected_query request translation lang))] @
                 back_translation lang (cr_output (composed e request products payload)) @
                 persist_calls e s chatId request products lang
                   (detected_query request translation lang) payload\<rparr>"
      "create_chat_response_scoring e s2 request
         (answer_of e s chatId request products lang
            (detected_query request translation lang) payload) = (rs, s')"
      "result = (case rs of Inl err \<Rightarrow> Inl err
                 | Inr u \<Rightarrow> Inr (answer_of e s chatId request products lang
                                  (detected_query request translation lang) payload))"
proof -
  note r_refused = refused and r_translate_failed = translate_failed
    and r_unsupported = unsupported and r_guard_failed = guard_failed
    and r_guard_no_message = guard_no_message and r_guard_rejected = guard_rejected
    and r_kg_failed = kg_failed and r_back_failed = back_failed and r_persisted = persisted
  obtain r s1 where g: "create_chat_response_admission e s chatId request user = (r, s1)"
    by (cases "create_chat_response_admission e s chatId request user")
  from g show thesis
  proof (cases rule: admission_cases)
    case (refused err us)
    with assms g show thesis
      by (intro r_refused [of err us]) (auto simp: create_chat_response_def)
  next
    case (translate_failed err us)
    with assms g show thesis
      by (intro r_translate_failed [of err us]) (auto simp: create_chat_response_def)
  next
    case (unsupported translation us)
    with assms g show thesis
      by (intro r_unsupported [of translation us])
         (auto simp: create_chat_response_def)
  next
    case (guard_failed translation lang err us)
    with assms g show thesis
      by (intro r_guard_failed [of translation lang err us])
         (auto simp: create_chat_response_def)
  next
    case (guard_no_message translation lang gr us)
    with assms g show thesis
      by (intro r_guard_no_message [of translation lang gr us])
         (auto simp: create_chat_response_def)
  next
    case (guard_rejected translation lang gr m us)
    with assms g show thesis
      by (intro r_guard_rejected [of translation lang gr m us])
         (auto simp: create_chat_response_def)
  next
    case (proceed translation lang us)
    let ?q = "detected_query request translation lang"
    have gp: "admitted e request translation lang"
      using proceed by (simp add: admitted_def)
    obtain ra s2 where a: "create_chat_response_answer e s1 chatId request products lang ?q = (ra, s2)"
      by (cases "create_chat_response_answer e s1 chatId request products lang ?q")
    from a show thesis
    proof (cases rule: answer_cases)
      case (kg_failed err)
      with assms g a proceed gp show thesis
        by (intro r_kg_failed [of translation lang err us])
           (auto simp: create_chat_response_def admission_calls_def)
    next
      case (back_failed payload err)
      with assms g a proceed gp show thesis
        by (intro r_back_failed [of translation lang payload err us])
           (auto simp: create_chat_response_def admission_calls_def)
    next
      case (answered payload)
      obtain rs s3 where sc: "create_chat_response_scoring e s2 request
           (answer_of e s chatId request products lang ?q payload) = (rs, s3)"
        by (cases "create_chat_response_scoring e s2 request
           (answer_of e s chatId request products lang ?q payload)")
      have ra: "ra = Inr (answer_of e s chatId request products lang ?q payload)"
        using answered proceed by (simp add: answer_of_def)
      have res: "result = (case rs of Inl err \<Rightarrow> Inl err
                 | Inr u \<Rightarrow> Inr (answer_of e s chatId request products lang ?q payload))"
        and s3: "s3 = s'"
        using assms g a ra sc proceed
        by (auto simp: create_chat_response_def split: sum.splits)
      show thesis
      proof (rule r_persisted [of translation lang payload s2 us rs])
        show "admitted e request translation lang" by (rule gp)
        show "kg_post e (search_local_url e)
           (posted_data e s chatId request products ?q) = Inr payload"
          using answered proceed by simp
        show "lang \<noteq> ''en'' \<longrightarrow>
           (\<exists>t. translate e (cr_output (composed e request products payload)) lang = Inr t)"
          using answered by simp
        show "s2 = s\<lparr>users := us,
               responses := responses s @
                 [persisted_row e s chatId request products lang ?q payload],
               references := references s @
                 map (reference_row_of
                        (r_id (persisted_row e s chatId request products lang ?q payload)))
                   (enumerate 0 (cr_references (composed e request products payload))),
               calls := calls s @ admission_calls e request translation lang @
                 [KgPost (search_local_url e)
                    (posted_data e s chatId request products ?q)] @
                 back_translation lang (cr_output (composed e request products payload)) @
                 persist_calls e s chatId request products lang ?q payload\<rparr>"
          using answered proceed by (simp add: admission_calls_def persist_calls_def)
        show "create_chat_response_scoring e s2 request
           (answer_of e s chatId request products lang ?q payload) = (rs, s')"
          using sc s3 by simp
        show "result = (case rs of Inl err \<Rightarrow> Inl err
                 | Inr u \<Rightarrow> Inr (answer_of e s chatId request products lang ?q payload))"
          by (rule res)
      qed
    qed
  qed
qed

lemmas ex_defs = ex_env_def ex_state_def ex_settings_def ex_translate_def ex_guardrails_def
  ex_response_prepare_def ex_scores_def ex_user_def ex_products_def

lemmas handler_defs = create_chat_response_def create_chat_response_admission_def
  guardrail_check_def create_chat_response_answer_def create_chat_response_scoring_def
  translate_back_def insert_references_def insert_response_reference_def insert_response_def
  resolve_user_def insert_user_def get_user_by_email_def validate_chat_existence_access_def
  get_responses_by_chat_id_def conversation_history_of_def conversation_elements_def
  SENTINEL_ID_def LANGUAGE_NOT_SUPPORTED_def FAITHFULNESS_THRESHOLD_def
  RELEVANCE_THRESHOLD_def

lemma new_calls_append [simp]:
  "calls s' = calls s @ cs \<Longrightarrow> new_calls s s' = cs"
  by (simp add: new_calls_def)

lemma new_calls_same [simp]:
  "calls s' = calls s \<Longrightarrow> new_calls s s' = []"
  by (simp add: new_calls_def)

subsection \<open>Short circuits\<close>

text \<open>
  C1. A turn that reaches language detection (the translator was called) and whose
  detected source language is none of \<^verbatim>\<open>en\<close>, \<^verbatim>\<open>de\<close>, \<^verbatim>\<open>fr\<close> (an absent
  \<^verbatim>\<open>source_lang\<close> included) returns, as a normal result, the response with the fixed
  message. It inserts no Response and no Reference row, and the call to the translator
  is the only call it makes: the knowledge-graph engine is not asked.
\<close>

theorem unsupported_language_short_circuit:
  assumes run: "create_chat_response e s chatId request user products = (result, s')"
      and reached: "Translate (content request) ''en'' \<in> set (new_calls s s')"
      and detect: "translate e (content request) ''en'' = Inr translation"
      and lang: "translation ''source_lang'' \<notin> {Some ''en'', Some ''de'', Some ''fr''}"
  shows "result = Inr \<lparr>cr_id = SENTINEL_ID, cr_createdAt = now e,
                        cr_input = content request, cr_output = LANGUAGE_NOT_SUPPORTED,
                        cr_references = []\<rparr>
         \<and> responses s' = responses s \<and> references s' = references s
         \<and> new_calls s s' = [Translate (content request) ''en'']"
  using run
proof (cases rule: run_cases)
  case (refused err us)
  with reached show ?thesis by simp
next
  case (translate_failed err us)
  with detect show ?thesis by simp
next
  case (unsupported translation' us)
  then show ?thesis by (simp add: early_response_def)
next
  case (guard_failed translation' lang' err us)
  with detect lang show ?thesis by auto
next
  case (guard_no_message translation' lang' g us)
  with detect lang show ?thesis by auto
next
  case (guard_rejected translation' lang' g m us)
  with detect lang show ?thesis by auto
next
  case (kg_failed translation' lang' err us)
  with detect lang show ?thesis by (auto simp: admitted_def)
next
  case (back_failed translation' lang' payload err us)
  with detect lang show ?thesis by (auto simp: admitted_def)
next
  case (persisted translation' lang' payload us s2 rs)
  with detect lang show ?thesis by (auto simp: admitted_def)
qed

theorem unsupported_language_short_circuit_witness:
  "Translate ''Que es X?'' ''en''
     \<in> set (new_calls ex_state
              (snd (create_chat_response ex_env ex_state ''C1''
                      \<lparr>content = ''Que es X?'', stream = False\<rparr> ex_user ex_products)))
   \<and> translate ex_env ''Que es X?'' ''en''
       = Inr [''source_lang'' \<mapsto> ''es'', ''translated_text'' \<mapsto> ''What is X?'']
   \<and> Some ''es'' \<notin> {Some ''en'', Some ''de'', Some ''fr''}
   \<and> fst (create_chat_response ex_env ex_state ''C1''
             \<lparr>content = ''Que es X?'', stream = False\<rparr> ex_user ex_products)
       = Inr \<lparr>cr_id = ''00000000-0000-0000-0000-000000000000'', cr_createdAt = 100,
              cr_input = ''Que es X?'',
              cr_output =
                ''Language not supported. Supported languages are English, German and French'',
              cr_references = []\<rparr>
   \<and> responses (snd (create_chat_response ex_env ex_state ''C1''
                        \<lparr>content = ''Que es X?'', stream = False\<rparr> ex_user ex_products))
       = responses ex_state"
proof -
  let ?rq = "\<lparr>content = ''Que es X?'', stream = False\<rparr>"
  let ?run = "create_chat_response ex_env ex_state ''C1'' ?rq ex_user ex_products"
  have run: "?run = (fst ?run, snd ?run)" by simp
  have reached: "Translate (content ?rq) ''en'' \<in> set (new_calls ex_state (snd ?run))"
    by (simp add: handler_defs ex_defs new_calls_def)
  have detect: "translate ex_env (content ?rq) ''en''
       = Inr [''source_lang'' \<mapsto> ''es'', ''translated_text'' \<mapsto> ''What is X?'']"
    by (simp add: ex_defs)
  have lang: "[''source_lang'' \<mapsto> ''es'', ''translated_text'' \<mapsto> ''What is X?''] ''source_lang''
       \<notin> {Some ''en'', Some ''de'', Some ''fr''}"
    by simp
  from unsupported_language_short_circuit [OF run reached detect lang] reached detect
  show ?thesis
    by (simp add: ex_defs SENTINEL_ID_def LANGUAGE_NOT_SUPPORTED_def)
qed

text \<open>
  C2. A turn in which the guardrail was asked about the query (so guardrail evaluation is
  enabled) and answered that the query is not relevant, giving a message, returns as a
  normal result the response whose output is that message. It inserts no Response and
  no Reference row; its only calls are the language detection and the guardrail call,
  so the knowledge-graph engine is not asked.
\<close>

theorem guardrail_rejection_short_circuit:
  assumes run: "create_chat_response e s chatId request user products = (result, s')"
      and asked: "Guardrails query \<in> set (new_calls s s')"
      and verdict: "guardrails e query = Inr g"
      and irrelevant: "\<not> relevant g"
      and msg: "message g = Some m"
  shows "guardrail_enabled (config_settings e)
         \<and> result = Inr \<lparr>cr_id = SENTINEL_ID, cr_createdAt = now e,
                        cr_input = content request, cr_output = m,
                        cr_references = []\<rparr>
         \<and> responses s' = responses s \<and> references s' = references s
         \<and> new_calls s s' = [Translate (content request) ''en'', Guardrails query]"
  using run
proof (cases rule: run_cases)
  case (refused err us)
  with asked show ?thesis by simp
next
  case (translate_failed err us)
  with asked show ?thesis by simp
next
  case (unsupported translation us)
  with asked show ?thesis by simp
next
  case (guard_failed translation lang err us)
  with asked verdict show ?thesis by auto
next
  case (guard_no_message translation lang g' us)
  with asked verdict msg show ?thesis by auto
next
  case (guard_rejected translation lang g' m' us)
  with asked verdict msg show ?thesis by (auto simp: early_response_def)
next
  case (kg_failed translation lang err us)
  with asked verdict irrelevant show ?thesis
    by (auto simp: admitted_def admission_calls_def guard_call_def guard_passes_def
             split: if_splits)
next
  case (back_failed translation lang payload err us)
  with asked verdict irrelevant show ?thesis
    by (auto simp: admitted_def admission_calls_def guard_call_def guard_passes_def
             split: if_splits)
next
  case (persisted translation lang payload us s2 rs)
  from persisted(5) have "calls s' = calls s2 @
      [EvaluateWithRagas (content request)
         (cr_output (answer_of e s chatId request products lang
            (detected_query request translation lang) payload))]"
    by (cases rule: scoring_cases) auto
  with persisted asked verdict irrelevant show ?thesis
    by (auto simp: admitted_def admission_calls_def guard_call_def guard_passes_def
                   back_translation_def persist_calls_def
             split: if_splits)
qed

theorem guardrail_rejection_short_circuit_witness:
  "Guardrails (Some ''Tell me a joke'')
     \<in> set (new_calls ex_state
              (snd (create_chat_response ex_env_guarded ex_state ''C1''
                      \<lparr>content = ''Tell me a joke'', stream = False\<rparr> ex_user ex_products)))
   \<and> guardrails ex_env_guarded (Some ''Tell me a joke'')
       = Inr \<lparr>relevant = False, message = Some ''I only answer product questions.''\<rparr>
   \<and> fst (create_chat_response ex_env_guarded ex_state ''C1''
             \<lparr>content = ''Tell me a joke'', stream = False\<rparr> ex_user ex_products)
       = Inr \<lparr>cr_id = ''00000000-0000-0000-0000-000000000000'', cr_createdAt = 100,
              cr_input = ''Tell me a joke'',
              cr_output = ''I only answer product questions.'',
              cr_references = []\<rparr>
   \<and> responses (snd (create_chat_response ex_env_guarded ex_state ''C1''
                        \<lparr>content = ''Tell me a joke'', stream = False\<rparr> ex_user ex_products))
       = responses ex_state
   \<and> references (snd (create_chat_response ex_env_guarded ex_state ''C1''
                        \<lparr>content = ''Tell me a joke'', stream = False\<rparr> ex_user ex_products))
       = []"
proof -
  let ?rq = "\<lparr>content = ''Tell me a joke'', stream = False\<rparr>"
  let ?run = "create_chat_response ex_env_guarded ex_state ''C1'' ?rq ex_user ex_products"
  let ?g = "\<lparr>relevant = False, message = Some ''I only answer product questions.''\<rparr>"
  have run: "?run = (fst ?run, snd ?run)" by simp
  have asked: "Guardrails (Some ''Tell me a joke'') \<in> set (new_calls ex_state (snd ?run))"
    by (simp add: handler_defs ex_defs ex_env_guarded_def new_calls_def)
  have verdict: "guardrails ex_env_guarded (Some ''Tell me a joke'') = Inr ?g"
    by (simp add: ex_defs ex_env_guarded_def)
  have irrelevant: "\<not> relevant ?g" by simp
  have msg: "message ?g = Some ''I only answer product questions.''" by simp
  from guardrail_rejection_short_circuit [OF run asked verdict irrelevant msg] asked verdict
  show ?thesis
    by (simp add: ex_defs ex_env_guarded_def SENTINEL_ID_def)
qed

text \<open>
  C10. A short circuit is a turn that returns a response without asking the
  knowledge-graph engine. Its response has the sentinel identifier, no references and
  the raw content as input. The Response and Reference tables are as before the turn,
  so the reads behind \<^verbatim>\<open>get_chat_responses\<close> and the rating handlers
  (\<^verbatim>\<open>get_responses_by_chat_id\<close>, \<^verbatim>\<open>get_response_by_id\<close>) return what they returned
  before it: the response is nowhere to be found.
\<close>

theorem short_circuit_response_not_persisted:
  assumes run: "create_chat_response e s chatId request user products = (result, s')"
      and ok: "result = Inr cr"
      and no_qa: "\<forall>url pd. KgPost url pd \<notin> set (new_calls s s')"
  shows "cr_id cr = SENTINEL_ID \<and> cr_references cr = [] \<and> cr_input cr = content request
         \<and> responses s' = responses s \<and> references s' = references s
         \<and> get_response_by_id s' rid = get_response_by_id s rid
         \<and> get_responses_by_chat_id s' cid limit offset ob
             = get_responses_by_chat_id s cid limit offset ob"
  using run
proof (cases rule: run_cases)
  case (refused err us)
  with ok show ?thesis by simp
next
  case (translate_failed err us)
  with ok show ?thesis by simp
next
  case (unsupported translation us)
  with ok show ?thesis
    by (auto simp: early_response_def get_response_by_id_def get_responses_by_chat_id_def)
next
  case (guard_failed translation lang err us)
  with ok show ?thesis by simp
next
  case (guard_no_message translation lang g us)
  with ok show ?thesis by simp
next
  case (guard_rejected translation lang g m us)
  with ok show ?thesis
    by (auto simp: early_response_def get_response_by_id_def get_responses_by_chat_id_def)
next
  case (kg_failed translation lang err us)
  with ok show ?thesis by simp
next
  case (back_failed translation lang payload err us)
  with ok show ?thesis by simp
next
  case (persisted translation lang payload us s2 rs)
  from persisted(5) have "calls s' = calls s2 @
      [EvaluateWithRagas (content request)
         (cr_output (answer_of e s chatId request products lang
            (detected_query request translation lang) payload))]"
    by (cases rule: scoring_cases) auto
  with persisted no_qa show ?thesis by auto
qed

theorem short_circuit_response_not_persisted_witness:
  "fst (create_chat_response ex_env ex_state ''C1''
          \<lparr>content = ''Que es X?'', stream = True\<rparr> ex_user ex_products)
     = Inr \<lparr>cr_id = ''00000000-0000-0000-0000-000000000000'', cr_createdAt = 100,
            cr_input = ''Que es X?'',
            cr_output =
              ''Language not supported. Supported languages are English, German and French'',
            cr_references = []\<rparr>
   \<and> (\<forall>url pd. KgPost url pd \<notin> set (new_calls ex_state
          (snd (create_chat_response ex_env ex_state ''C1''
                  \<lparr>content = ''Que es X?'', stream = True\<rparr> ex_user ex_products))))
   \<and> get_response_by_id
         (snd (create_chat_response ex_env ex_state ''C1''
                 \<lparr>content = ''Que es X?'', stream = True\<rparr> ex_user ex_products))
         ''00000000-0000-0000-0000-000000000000'' = None
   \<and> map r_id
         (get_responses_by_chat_id
            (snd (create_chat_response ex_env ex_state ''C1''
                    \<lparr>content = ''Que es X?'', stream = True\<rparr> ex_user ex_products))
            ''C1'' 10 0 Asc) = [''a1'', ''a2'']"
proof -
  let ?rq = "\<lparr>content = ''Que es X?'', stream = True\<rparr>"
  let ?run = "create_chat_response ex_env ex_state ''C1'' ?rq ex_user ex_products"
  let ?cr = "\<lparr>cr_id = ''00000000-0000-0000-0000-000000000000'', cr_createdAt = 100,
            cr_input = ''Que es X?'',
            cr_output =
              ''Language not supported. Supported languages are English, German and French'',
            cr_references = []\<rparr>"
  have run: "?run = (fst ?run, snd ?run)" by simp
  have ok: "fst ?run = Inr ?cr"
    by (simp add: handler_defs ex_defs)
  have no_qa: "\<forall>url pd. KgPost url pd \<notin> set (new_calls ex_state (snd ?run))"
    by (simp add: handler_defs ex_defs new_calls_def)
  have before: "get_response_by_id ex_state ''00000000-0000-0000-0000-000000000000'' = None"
    "map r_id (get_responses_by_chat_id ex_state ''C1'' 10 0 Asc) = [''a1'', ''a2'']"
    by (simp_all add: get_response_by_id_def get_responses_by_chat_id_def ex_state_def)
  from short_circuit_response_not_persisted [OF run ok no_qa,
      of "''00000000-0000-0000-0000-000000000000''" "''C1''" 10 0 Asc] ok no_qa before
  show ?thesis by (simp add: SENTINEL_ID_def)
qed

subsection \<open>Persistence\<close>

lemma scoring_frame:
  assumes "create_chat_response_scoring e s request cr = (r, s')"
  shows "responses s' = responses s" "references s' = references s"
    "calls s' = calls s @ [EvaluateWithRagas (content request) (cr_output cr)]"
  using assms by (cases rule: scoring_cases; simp)+

lemma reference_row_of_split:
  "(\<lambda>(i, r). \<lparr>reference_id = ref_id r, reference_type = ref_type r, idx = i,
               response_id = rid\<rparr>) = reference_row_of rid"
  by (simp add: fun_eq_iff reference_row_of_def)

lemma reference_rows_fields:
  "map idx (map (reference_row_of rid) (enumerate 0 refs)) = [0..<length refs]"
  "map reference_id (map (reference_row_of rid) (enumerate 0 refs)) = map ref_id refs"
  "map reference_type (map (reference_row_of rid) (enumerate 0 refs)) = map ref_type refs"
proof -
  have f: "idx \<circ> reference_row_of rid = fst"
    "reference_id \<circ> reference_row_of rid = ref_id \<circ> snd"
    "reference_type \<circ> reference_row_of rid = ref_type \<circ> snd"
    by (simp_all add: fun_eq_iff reference_row_of_def)
  show "map idx (map (reference_row_of rid) (enumerate 0 refs)) = [0..<length refs]"
    by (simp add: f)
  have "map (ref_id \<circ> snd) (enumerate 0 refs) = map ref_id (map snd (enumerate 0 refs))"
    by (simp only: map_map)
  then show "map reference_id (map (reference_row_of rid) (enumerate 0 refs)) = map ref_id refs"
    by (simp add: f)
  have "map (ref_type \<circ> snd) (enumerate 0 refs) = map ref_type (map snd (enumerate 0 refs))"
    by (simp only: map_map)
  then show "map reference_type (map (reference_row_of rid) (enumerate 0 refs))
      = map ref_type refs"
    by (simp add: f)
qed

lemma filter_is_insert_admission [simp]:
  "filter is_insert (admission_calls e request translation lang) = []"
  "filter is_insert (back_translation lang outp) = []"
  by (simp_all add: admission_calls_def guard_call_def back_translation_def is_insert_def)

lemma filter_is_insert_persist [simp]:
  "filter is_insert (persist_calls e s chatId request products lang q payload)
     = persist_calls e s chatId request products lang q payload"
  by (simp add: persist_calls_def is_insert_def filter_map comp_def)

lemma InsertResponse_in_persist_calls [simp]:
  "InsertResponse row \<in> set (persist_calls e s chatId request products lang q payload)
     \<longleftrightarrow> row = persisted_row e s chatId request products lang q payload"
  by (auto simp: persist_calls_def)

lemma InsertResponse_notin_admission [simp]:
  "InsertResponse row \<notin> set (admission_calls e request translation lang)"
  "InsertResponse row \<notin> set (back_translation lang outp)"
  by (simp_all add: admission_calls_def guard_call_def back_translation_def)

text \<open>
  C4. In a turn that reaches persistence (a Response row is inserted), the inserts of
  the turn are, in this order: the Response row, then one Reference row for each
  reference of the composer's list, in list order. The row of the reference at position
  \<open>i\<close> has \<open>idx = i\<close>, the identifier and type of that reference and the identifier
  of the new Response row; the ordinals are \<open>0, \<dots>, length refs - 1\<close> without gap. The
  tables hold exactly these new rows after the turn.
\<close>

theorem references_inserted_with_list_ordinals:
  assumes run: "create_chat_response e s chatId request user products = (result, s')"
      and reached: "InsertResponse row \<in> set (new_calls s s')"
  shows "let refs = cr_references (response_prepare e (content request)
                      (r_original_response row) (fst products) (uuid4 e));
             rows = map (\<lambda>(i, r). \<lparr>reference_id = ref_id r, reference_type = ref_type r,
                                     idx = i, response_id = r_id row\<rparr>) (enumerate 0 refs)
         in filter is_insert (new_calls s s') = InsertResponse row # map InsertResponseReference rows
            \<and> responses s' = responses s @ [row]
            \<and> references s' = references s @ rows
            \<and> map idx rows = [0..<length refs]
            \<and> map reference_id rows = map ref_id refs
            \<and> map reference_type rows = map ref_type refs"
  using run
proof (cases rule: run_cases)
  case (refused err us)
  with reached show ?thesis by simp
next
  case (translate_failed err us)
  with reached show ?thesis by simp
next
  case (unsupported translation us)
  with reached show ?thesis by simp
next
  case (guard_failed translation lang err us)
  with reached show ?thesis by simp
next
  case (guard_no_message translation lang g us)
  with reached show ?thesis by simp
next
  case (guard_rejected translation lang g m us)
  with reached show ?thesis by simp
next
  case (kg_failed translation lang err us)
  with reached show ?thesis by simp
next
  case (back_failed translation lang payload err us)
  with reached show ?thesis by simp
next
  case (persisted translation lang payload us s2 rs)
  let ?q = "detected_query request translation lang"
  let ?row = "persisted_row e s chatId request products lang ?q payload"
  note sf = scoring_frame [OF persisted(5)]
  have calls: "new_calls s s' = admission_calls e request translation lang @
      [KgPost (search_local_url e) (posted_data e s chatId request products ?q)] @
      back_translation lang (cr_output (composed e request products payload)) @
      persist_calls e s chatId request products lang ?q payload @
      [EvaluateWithRagas (content request)
         (cr_output (answer_of e s chatId request products lang ?q payload))]"
    using sf persisted(4) by simp
  have row: "row = ?row"
    using reached unfolding calls by simp
  have payload: "r_original_response row = payload"
    unfolding row by (simp add: persisted_row_def)
  have ins: "filter is_insert (new_calls s s')
      = persist_calls e s chatId request products lang ?q payload"
    unfolding calls by (simp add: is_insert_def)
  show ?thesis
    unfolding Let_def reference_row_of_split payload reference_rows_fields ins
    using sf persisted(4)
    by (simp add: row persist_calls_def composed_def)
qed

theorem references_inserted_with_list_ordinals_witness:
  "InsertResponse
     \<lparr>r_id = ''resp-iii'', r_chat_id = ''C1'', r_user_input = ''What is X?'',
      r_query = ''What is X?'', r_output = ''X is a widget.'',
      r_original_response = ''payload'', r_rating = None, r_createdAt = 100\<rparr>
     \<in> set (new_calls ex_state
              (snd (create_chat_response ex_env ex_state ''C1''
                      \<lparr>content = ''What is X?'', stream = False\<rparr> ex_user ex_products)))
   \<and> references
         (snd (create_chat_response ex_env ex_state ''C1''
                 \<lparr>content = ''What is X?'', stream = False\<rparr> ex_user ex_products))
       = [\<lparr>reference_id = ''r1'', reference_type = ''doc'', idx = 0,
           response_id = ''resp-iii''\<rparr>,
          \<lparr>reference_id = ''r2'', reference_type = ''product'', idx = 1,
           response_id = ''resp-iii''\<rparr>]
   \<and> length (responses
         (snd (create_chat_response ex_env ex_state ''C1''
                 \<lparr>content = ''What is X?'', stream = False\<rparr> ex_user ex_products))) = 4"
proof -
  let ?rq = "\<lparr>content = ''What is X?'', stream = False\<rparr>"
  let ?run = "create_chat_response ex_env ex_state ''C1'' ?rq ex_user ex_products"
  let ?row = "\<lparr>r_id = ''resp-iii'', r_chat_id = ''C1'', r_user_input = ''What is X?'',
      r_query = ''What is X?'', r_output = ''X is a widget.'',
      r_original_response = ''payload'', r_rating = None, r_createdAt = 100\<rparr>"
  have run: "?run = (fst ?run, snd ?run)" by simp
  have reached: "InsertResponse ?row \<in> set (new_calls ex_state (snd ?run))"
    by (simp add: handler_defs ex_defs new_calls_def Let_def)
  from references_inserted_with_list_ordinals [OF run reached] reached
  show ?thesis
    by (simp add: ex_defs Let_def enumerate_eq_zip upt_rec)
qed

subsection \<open>The conversation history\<close>

lemma conversation_elements_eta:
  "(\<lambda>r. [\<lparr>role = ''user'', element_content = r_query r\<rparr>,
          \<lparr>role = ''assistant'', element_content = r_output r\<rparr>]) = conversation_elements"
  by (simp add: fun_eq_iff conversation_elements_def)

lemma length_conversation_elements:
  "length (concat (map conversation_elements xs)) = 2 * length xs"
  by (induction xs) (simp_all add: conversation_elements_def)

lemma posted_history:
  "pd_conversation_history (posted_data e s chatId request products q)
     = concat (map conversation_elements
         (drop (length (sort_key r_createdAt (filter (\<lambda>r. r_chat_id r = chatId) (responses s)))
                  - nat (max_conversation_turns (config_settings e)))
            (sort_key r_createdAt (filter (\<lambda>r. r_chat_id r = chatId) (responses s)))))"
  by (simp add: posted_data_def get_responses_by_chat_id_def conversation_history_of_def
        rev_take Let_def)

lemma KgPost_notin [simp]:
  "KgPost url pd \<notin> set (admission_calls e request translation lang)"
  "KgPost url pd \<notin> set (back_translation lang outp)"
  "KgPost url pd \<notin> set (persist_calls e s chatId request products lang q payload)"
  by (auto simp: admission_calls_def guard_call_def back_translation_def persist_calls_def)

text \<open>
  C5. In a turn that reaches the call to the knowledge-graph engine, the history in the
  posted body is made of the \<open>min n k\<close> most recent responses of the chat, where \<open>n\<close> is
  \<^verbatim>\<open>max_conversation_turns\<close> and \<open>k\<close> the number of responses the chat holds: they are
  the last entries of the chat's responses in order of creation, they appear in that
  order, and each gives a user entry with its query followed by an assistant entry with
  its output. The history has \<open>2 * min n k\<close> entries. The store's answer to a negative
  limit is not fixed by the sources; the count over the integers is stated for \<open>0 \<le> n\<close>.
\<close>

theorem conversation_history_is_recent_turns_in_order:
  assumes run: "create_chat_response e s chatId request user products = (result, s')"
      and posted: "KgPost url pd \<in> set (new_calls s s')"
  shows "let prior = sort_key r_createdAt (filter (\<lambda>r. r_chat_id r = chatId) (responses s));
             n = max_conversation_turns (config_settings e);
             recent = drop (length prior - nat n) prior
         in pd_conversation_history pd =
              concat (map (\<lambda>r. [\<lparr>role = ''user'', element_content = r_query r\<rparr>,
                                 \<lparr>role = ''assistant'', element_content = r_output r\<rparr>])
                        recent)
            \<and> sorted (map r_createdAt recent)
            \<and> length (pd_conversation_history pd) = 2 * min (nat n) (length prior)
            \<and> (0 \<le> n \<longrightarrow>
                 int (length (pd_conversation_history pd)) = 2 * min n (int (length prior)))"
proof -
  let ?prior = "sort_key r_createdAt (filter (\<lambda>r. r_chat_id r = chatId) (responses s))"
  let ?n = "max_conversation_turns (config_settings e)"
  have "\<exists>q. pd = posted_data e s chatId request products q"
    using run
  proof (cases rule: run_cases)
    case (refused err us)
    with posted show ?thesis by simp
  next
    case (translate_failed err us)
    with posted show ?thesis by simp
  next
    case (unsupported translation us)
    with posted show ?thesis by simp
  next
    case (guard_failed translation lang err us)
    with posted show ?thesis by simp
  next
    case (guard_no_message translation lang g us)
    with posted show ?thesis by simp
  next
    case (guard_rejected translation lang g m us)
    with posted show ?thesis by simp
  next
    case (kg_failed translation lang err us)
    with posted show ?thesis by auto
  next
    case (back_failed translation lang payload err us)
    with posted show ?thesis by auto
  next
    case (persisted translation lang payload us s2 rs)
    note sf = scoring_frame [OF persisted(5)]
    with persisted(4) posted show ?thesis by auto
  qed
  then obtain q where pd: "pd = posted_data e s chatId request products q" ..
  have hist: "pd_conversation_history pd =
      concat (map conversation_elements (drop (length ?prior - nat ?n) ?prior))"
    unfolding pd by (rule posted_history)
  have srt: "sorted (map r_createdAt (drop (length ?prior - nat ?n) ?prior))"
    by (simp add: drop_map [symmetric] sorted_wrt_drop del: drop_map)
  have len: "length (pd_conversation_history pd) = 2 * min (nat ?n) (length ?prior)"
    unfolding hist length_conversation_elements by auto
  have leni: "0 \<le> ?n \<longrightarrow>
       int (length (pd_conversation_history pd)) = 2 * min ?n (int (length ?prior))"
    unfolding len by auto
  show ?thesis
    unfolding Let_def conversation_elements_eta
    using hist srt len leni by simp
qed

theorem conversation_history_is_recent_turns_in_order_witness:
  "KgPost ''http://kg/search/local''
     \<lparr>pd_message = \<lparr>role = ''assistant'', element_content = ''What is X?''\<rparr>,
      pd_stream = False, pd_temperature = 0.5, pd_max_tokens = 200,
      pd_conversation_history =
        [\<lparr>role = ''user'', element_content = ''q3''\<rparr>,
         \<lparr>role = ''assistant'', element_content = ''o3''\<rparr>]\<rparr>
     \<in> set (new_calls ex_state
              (snd (create_chat_response ex_env_one_turn ex_state ''C1''
                      \<lparr>content = ''What is X?'', stream = False\<rparr> ex_user ex_products)))
   \<and> (0::int) \<le> max_conversation_turns (config_settings ex_env_one_turn)
   \<and> length [\<lparr>role = ''user'', element_content = ''q3''\<rparr>,
               \<lparr>role = ''assistant'', element_content = ''o3''\<rparr>]
       = 2 * min (nat (max_conversation_turns (config_settings ex_env_one_turn)))
               (length (sort_key r_createdAt
                          (filter (\<lambda>r. r_chat_id r = ''C1'') (responses ex_state))))"
proof -
  let ?rq = "\<lparr>content = ''What is X?'', stream = False\<rparr>"
  let ?run = "create_chat_response ex_env_one_turn ex_state ''C1'' ?rq ex_user ex_products"
  let ?pd = "\<lparr>pd_message = \<lparr>role = ''assistant'', element_content = ''What is X?''\<rparr>,
      pd_stream = False, pd_temperature = 0.5, pd_max_tokens = 200,
      pd_conversation_history =
        [\<lparr>role = ''user'', element_content = ''q3''\<rparr>,
         \<lparr>role = ''assistant'', element_content = ''o3''\<rparr>]\<rparr>"
  have run: "?run = (fst ?run, snd ?run)" by simp
  have posted: "KgPost ''http://kg/search/local'' ?pd \<in> set (new_calls ex_state (snd ?run))"
    by (simp add: handler_defs ex_defs ex_env_one_turn_def new_calls_def Let_def)
  have nonneg: "(0::int) \<le> max_conversation_turns (config_settings ex_env_one_turn)"
    by (simp add: ex_defs ex_env_one_turn_def)
  from conversation_history_is_recent_turns_in_order [OF run posted] posted nonneg
  show ?thesis
    by (simp add: Let_def ex_defs ex_env_one_turn_def)
qed

subsection \<open>Composition and translation\<close>

lemma filter_is_translation [simp]:
  "filter is_translation (admission_calls e request translation lang)
     = [Translate (content request) ''en'']"
  "filter is_translation (back_translation lang outp) = back_translation lang outp"
  "filter is_translation (persist_calls e s chatId request products lang q payload) = []"
  by (simp_all add: admission_calls_def guard_call_def back_translation_def persist_calls_def
        is_translation_def filter_map comp_def)

lemma Translate_filter_back [simp]:
  "filter is_translation [Translate text target] = [Translate text target]"
  by (simp add: is_translation_def)

lemma run_calls_persisted:
  assumes "create_chat_response_scoring e s2 request cr = (rs, s')"
    and "calls s2 = calls s @ cs"
  shows "new_calls s s' = cs @ [EvaluateWithRagas (content request) (cr_output cr)]"
  using scoring_frame(3) [OF assms(1)] assms(2) by simp

text \<open>
  C6. Take a turn that asked the knowledge-graph engine. If the engine failed, the turn
  fails. Otherwise the source language \<open>lang\<close> of the turn was detected and is one of
  \<^verbatim>\<open>en\<close>, \<^verbatim>\<open>de\<close>, \<^verbatim>\<open>fr\<close>, and with \<open>answer\<close> the response the composer built from the
  engine's payload:
  \<^item> the translator calls of the turn are the detection and, after it, one more call
    exactly when \<open>lang\<close> is not \<^verbatim>\<open>en\<close>: the back-translation of the composer's answer
    into \<open>lang\<close>. This holds also when that call or a later step fails.
  \<^item> when the back-translation is not needed or succeeds, the two passes complete and
    the response is persisted (the handler has no other way to go on);
  \<^item> the response after the two passes, as it is persisted, has the input and the
    references of \<open>answer\<close> (same identifiers, types and order, with the list
    positions as ordinals); only its output differs: the reformatted answer for
    \<^verbatim>\<open>en\<close>, the reformatted back-translation otherwise;
  \<^item> whenever the turn returns a response, that response has the references and the
    input of \<open>answer\<close> and the persisted output.
  Nothing is assumed about the scorer or about the result of the turn.
\<close>

theorem translation_changes_output_only:
  assumes run: "create_chat_response e s chatId request user products = (result, s')"
      and posted: "KgPost url pd \<in> set (new_calls s s')"
  shows "case kg_post e url pd of
           Inl err \<Rightarrow> result = Inl err
         | Inr payload \<Rightarrow>
             (\<exists>translation lang.
                translate e (content request) ''en'' = Inr translation
              \<and> translation ''source_lang'' = Some lang
              \<and> (lang = ''en'' \<or> lang = ''de'' \<or> lang = ''fr'')
              \<and> (let answer = response_prepare e (content request) payload (fst products)
                                  (uuid4 e)
                 in filter is_translation (new_calls s s')
                      = Translate (content request) ''en'' #
                        (if lang \<noteq> ''en'' then [Translate (cr_output answer) lang] else [])
                  \<and> ((lang = ''en'' \<or> (\<exists>t. translate e (cr_output answer) lang = Inr t))
                       \<longrightarrow> (\<exists>row. InsertResponse row \<in> set (new_calls s s')))
                  \<and> (\<forall>row. InsertResponse row \<in> set (new_calls s s') \<longrightarrow>
                         r_user_input row = cr_input answer
                       \<and> references s' = references s @
                             map (\<lambda>(i, r). \<lparr>reference_id = ref_id r,
                                             reference_type = ref_type r, idx = i,
                                             response_id = r_id row\<rparr>)
                               (enumerate 0 (cr_references answer))
                       \<and> (lang = ''en'' \<longrightarrow>
                              r_output row = format_references e (cr_output answer))
                       \<and> (lang \<noteq> ''en'' \<longrightarrow>
                             (\<exists>t. translate e (cr_output answer) lang = Inr t
                                \<and> r_output row =
                                    format_references e
                                      (case t ''translated_text'' of
                                         None \<Rightarrow> cr_output answer | Some x \<Rightarrow> x)))
                       \<and> (\<forall>cr. result = Inr cr \<longrightarrow>
                               cr_references cr = cr_references answer
                             \<and> cr_input cr = cr_input answer
                             \<and> cr_output cr = r_output row))
                  \<and> (\<forall>cr. result = Inr cr \<longrightarrow>
                         (\<exists>row. InsertResponse row \<in> set (new_calls s s')))))"
  using run
proof (cases rule: run_cases)
  case (refused err us)
  with posted show ?thesis by simp
next
  case (translate_failed err us)
  with posted show ?thesis by simp
next
  case (unsupported translation us)
  with posted show ?thesis by simp
next
  case (guard_failed translation lang err us)
  with posted show ?thesis by simp
next
  case (guard_no_message translation lang g us)
  with posted show ?thesis by simp
next
  case (guard_rejected translation lang g m us)
  with posted show ?thesis by simp
next
  case (kg_failed translation lang err us)
  with posted show ?thesis by auto
next
  case (back_failed translation lang payload err us)
  let ?q = "detected_query request translation lang"
  let ?a = "composed e request products payload"
  have calls: "new_calls s s' = admission_calls e request translation lang @
      [KgPost (search_local_url e) (posted_data e s chatId request products ?q),
       Translate (cr_output ?a) lang]"
    using back_failed(6) by simp
  have url: "url = search_local_url e" "pd = posted_data e s chatId request products ?q"
    using posted unfolding calls by auto
  have kg: "kg_post e url pd = Inr payload"
    using back_failed(2) url by simp
  have gp: "translate e (content request) ''en'' = Inr translation"
    "translation ''source_lang'' = Some lang"
    "lang = ''en'' \<or> lang = ''de'' \<or> lang = ''fr''"
    using back_failed(1) by (simp_all add: admitted_def)
  have tr: "filter is_translation (new_calls s s')
      = Translate (content request) ''en'' #
        (if lang \<noteq> ''en'' then [Translate (cr_output ?a) lang] else [])"
    unfolding calls using back_failed(3) by (simp add: is_translation_def)
  have none: "\<forall>row. InsertResponse row \<notin> set (new_calls s s')"
    unfolding calls by simp
  have stuck: "\<not> (lang = ''en'' \<or> (\<exists>t. translate e (cr_output ?a) lang = Inr t))"
    using back_failed(3,4) by simp
  have failed: "\<forall>cr. result \<noteq> Inr cr"
    using back_failed(5) by simp
  have "let answer = response_prepare e (content request) payload (fst products) (uuid4 e)
        in filter is_translation (new_calls s s')
             = Translate (content request) ''en'' #
               (if lang \<noteq> ''en'' then [Translate (cr_output answer) lang] else [])
         \<and> ((lang = ''en'' \<or> (\<exists>t. translate e (cr_output answer) lang = Inr t))
              \<longrightarrow> (\<exists>row. InsertResponse row \<in> set (new_calls s s')))
         \<and> (\<forall>row. InsertResponse row \<in> set (new_calls s s') \<longrightarrow>
                r_user_input row = cr_input answer
              \<and> references s' = references s @
                    map (\<lambda>(i, r). \<lparr>reference_id = ref_id r,
                                    reference_type = ref_type r, idx = i,
                                    response_id = r_id row\<rparr>)
                      (enumerate 0 (cr_references answer))
              \<and> (lang = ''en'' \<longrightarrow>
                     r_output row = format_references e (cr_output answer))
              \<and> (lang \<noteq> ''en'' \<longrightarrow>
                    (\<exists>t. translate e (cr_output answer) lang = Inr t
                       \<and> r_output row =
                           format_references e
                             (case t ''translated_text'' of
                                None \<Rightarrow> cr_output answer | Some x \<Rightarrow> x)))
              \<and> (\<forall>cr. result = Inr cr \<longrightarrow>
                      cr_references cr = cr_references answer
                    \<and> cr_input cr = cr_input answer
                    \<and> cr_output cr = r_output row))
         \<and> (\<forall>cr. result = Inr cr \<longrightarrow>
                (\<exists>row. InsertResponse row \<in> set (new_calls s s')))"
    unfolding Let_def composed_def [symmetric]
    using tr none stuck failed by simp
  with gp show ?thesis unfolding kg by auto
next
  case (persisted translation lang payload us s2 rs)
  let ?q = "detected_query request translation lang"
  let ?a = "composed e request products payload"
  let ?row = "persisted_row e s chatId request products lang ?q payload"
  have calls: "new_calls s s' = admission_calls e request translation lang @
      [KgPost (search_local_url e) (posted_data e s chatId request products ?q)] @
      back_translation lang (cr_output ?a) @
      persist_calls e s chatId request products lang ?q payload @
      [EvaluateWithRagas (content request)
         (cr_output (answer_of e s chatId request products lang ?q payload))]"
    using run_calls_persisted [OF persisted(5)] persisted(4) by simp
  have url: "url = search_local_url e" "pd = posted_data e s chatId request products ?q"
    using posted unfolding calls by auto
  have kg: "kg_post e url pd = Inr payload"
    using persisted(2) url by simp
  have gp: "translate e (content request) ''en'' = Inr translation"
    "translation ''source_lang'' = Some lang"
    "lang = ''en'' \<or> lang = ''de'' \<or> lang = ''fr''"
    using persisted(1) by (simp_all add: admitted_def)
  have tr: "filter is_translation (new_calls s s')
      = Translate (content request) ''en'' #
        (if lang \<noteq> ''en'' then [Translate (cr_output ?a) lang] else [])"
    unfolding calls by (simp add: is_translation_def back_translation_def)
  have ins: "InsertResponse row \<in> set (new_calls s s') \<longleftrightarrow> row = ?row" for row
    unfolding calls by simp
  note sf = scoring_frame [OF persisted(5)]
  have refs: "references s' = references s @
      map (\<lambda>(i, r). \<lparr>reference_id = ref_id r, reference_type = ref_type r,
                      idx = i, response_id = r_id ?row\<rparr>)
        (enumerate 0 (cr_references ?a))"
    unfolding reference_row_of_split using sf persisted(4) by simp
  have inp: "r_user_input ?row = cr_input ?a"
    by (simp add: persisted_row_def)
  have outp: "r_output ?row = format_references e (back_translated e lang (cr_output ?a))"
    by (simp add: persisted_row_def final_output_def)
  have en: "lang = ''en'' \<longrightarrow> r_output ?row = format_references e (cr_output ?a)"
    unfolding outp by (simp add: back_translated_def)
  have other: "lang \<noteq> ''en'' \<longrightarrow>
       (\<exists>t. translate e (cr_output ?a) lang = Inr t
          \<and> r_output ?row =
              format_references e
                (case t ''translated_text'' of None \<Rightarrow> cr_output ?a | Some x \<Rightarrow> x))"
    using persisted(3) unfolding outp by (auto simp: back_translated_def)
  have ret: "\<forall>cr. result = Inr cr \<longrightarrow>
       cr_references cr = cr_references ?a \<and> cr_input cr = cr_input ?a
       \<and> cr_output cr = r_output ?row"
    using persisted(6) by (cases rs) (auto simp: answer_of_def)
  have "let answer = response_prepare e (content request) payload (fst products) (uuid4 e)
        in filter is_translation (new_calls s s')
             = Translate (content request) ''en'' #
               (if lang \<noteq> ''en'' then [Translate (cr_output answer) lang] else [])
         \<and> ((lang = ''en'' \<or> (\<exists>t. translate e (cr_output answer) lang = Inr t))
              \<longrightarrow> (\<exists>row. InsertResponse row \<in> set (new_calls s s')))
         \<and> (\<forall>row. InsertResponse row \<in> set (new_calls s s') \<longrightarrow>
                r_user_input row = cr_input answer
              \<and> references s' = references s @
                    map (\<lambda>(i, r). \<lparr>reference_id = ref_id r,
                                    reference_type = ref_type r, idx = i,
                                    response_id = r_id row\<rparr>)
                      (enumerate 0 (cr_references answer))
              \<and> (lang = ''en'' \<longrightarrow>
                     r_output row = format_references e (cr_output answer))
              \<and> (lang \<noteq> ''en'' \<longrightarrow>
                    (\<exists>t. translate e (cr_output answer) lang = Inr t
                       \<and> r_output row =
                           format_references e
                             (case t ''translated_text'' of
                                None \<Rightarrow> cr_output answer | Some x \<Rightarrow> x)))
              \<and> (\<forall>cr. result = Inr cr \<longrightarrow>
                      cr_references cr = cr_references answer
                    \<and> cr_input cr = cr_input answer
                    \<and> cr_output cr = r_output row))
         \<and> (\<forall>cr. result = Inr cr \<longrightarrow>
                (\<exists>row. InsertResponse row \<in> set (new_calls s s')))"
    unfolding Let_def composed_def [symmetric] ins
    using tr refs inp en other ret by simp
  with gp show ?thesis unfolding kg by auto
qed

theorem translation_changes_output_only_witness:
  "KgPost ''http://kg/search/local''
       \<lparr>pd_message = \<lparr>role = ''assistant'', element_content = ''What is X?''\<rparr>,
        pd_stream = False, pd_temperature = 0.5, pd_max_tokens = 200,
        pd_conversation_history =
          [\<lparr>role = ''user'', element_content = ''q1''\<rparr>,
           \<lparr>role = ''assistant'', element_content = ''o1''\<rparr>,
           \<lparr>role = ''user'', element_content = ''q3''\<rparr>,
           \<lparr>role = ''assistant'', element_content = ''o3''\<rparr>]\<rparr>
     \<in> set (new_calls ex_state
              (snd (create_chat_response ex_env_scoring_fails ex_state ''C1''
                      \<lparr>content = ''Was ist X?'', stream = False\<rparr> ex_user ex_products)))
   \<and> fst (create_chat_response ex_env_scoring_fails ex_state ''C1''
             \<lparr>content = ''Was ist X?'', stream = False\<rparr> ex_user ex_products)
       = Inl (UpstreamFailure ''evaluate_with_ragas'')
   \<and> filter is_translation
         (new_calls ex_state
            (snd (create_chat_response ex_env_scoring_fails ex_state ''C1''
                    \<lparr>content = ''Was ist X?'', stream = False\<rparr> ex_user ex_products)))
       = [Translate ''Was ist X?'' ''en'', Translate ''X is a widget.'' ''de'']
   \<and> (\<exists>row. InsertResponse row
              \<in> set (new_calls ex_state
                       (snd (create_chat_response ex_env_scoring_fails ex_state ''C1''
                               \<lparr>content = ''Was ist X?'', stream = False\<rparr> ex_user
                               ex_products)))
            \<and> r_user_input row = ''Was ist X?''
            \<and> r_output row = ''X ist ein Widget.''
            \<and> references
                  (snd (create_chat_response ex_env_scoring_fails ex_state ''C1''
                          \<lparr>content = ''Was ist X?'', stream = False\<rparr> ex_user ex_products))
                = [\<lparr>reference_id = ''r1'', reference_type = ''doc'', idx = 0,
                    response_id = r_id row\<rparr>,
                   \<lparr>reference_id = ''r2'', reference_type = ''product'', idx = 1,
                    response_id = r_id row\<rparr>])"
proof -
  let ?rq = "\<lparr>content = ''Was ist X?'', stream = False\<rparr>"
  let ?run = "create_chat_response ex_env_scoring_fails ex_state ''C1'' ?rq ex_user ex_products"
  let ?pd = "\<lparr>pd_message = \<lparr>role = ''assistant'', element_content = ''What is X?''\<rparr>,
        pd_stream = False, pd_temperature = 0.5, pd_max_tokens = 200,
        pd_conversation_history =
          [\<lparr>role = ''user'', element_content = ''q1''\<rparr>,
           \<lparr>role = ''assistant'', element_content = ''o1''\<rparr>,
           \<lparr>role = ''user'', element_content = ''q3''\<rparr>,
           \<lparr>role = ''assistant'', element_content = ''o3''\<rparr>]\<rparr>"
  let ?tr = "[''source_lang'' \<mapsto> ''de'', ''translated_text'' \<mapsto> ''What is X?'']"
  have run: "?run = (fst ?run, snd ?run)" by simp
  have posted: "KgPost ''http://kg/search/local'' ?pd \<in> set (new_calls ex_state (snd ?run))"
    by (simp add: handler_defs ex_defs ex_env_scoring_fails_def new_calls_def Let_def)
  have failed: "fst ?run = Inl (UpstreamFailure ''evaluate_with_ragas'')"
    by (simp add: handler_defs ex_defs ex_env_scoring_fails_def Let_def)
  have kg: "kg_post ex_env_scoring_fails ''http://kg/search/local'' ?pd = Inr ''payload''"
    by (simp add: ex_env_scoring_fails_def ex_env_def)
  have detect: "translate ex_env_scoring_fails (content ?rq) ''en'' = Inr ?tr"
    by (simp add: ex_env_scoring_fails_def ex_env_def ex_translate_def)
  have again: "translate ex_env_scoring_fails ''X is a widget.'' ''de''
      = Inr [''translated_text'' \<mapsto> ''X ist ein Widget.'']"
    by (simp add: ex_env_scoring_fails_def ex_env_def ex_translate_def)
  have answer: "response_prepare ex_env_scoring_fails (content ?rq) ''payload''
        (fst ex_products) (uuid4 ex_env_scoring_fails)
      = \<lparr>cr_id = ''tmp'', cr_createdAt = 0, cr_input = ''Was ist X?'',
         cr_output = ''X is a widget.'',
         cr_references = [\<lparr>ref_id = ''r1'', ref_type = ''doc''\<rparr>,
                          \<lparr>ref_id = ''r2'', ref_type = ''product''\<rparr>]\<rparr>"
    by (simp add: ex_env_scoring_fails_def ex_env_def ex_response_prepare_def)
  have fmt: "format_references ex_env_scoring_fails x = x" for x
    by (simp add: ex_env_scoring_fails_def ex_env_def)
  have before: "references ex_state = []"
    by (simp add: ex_state_def)
  have de: "''de'' \<noteq> ''en''" by simp
  note inst = translation_changes_output_only [OF run posted, unfolded kg sum.case]
  from inst have "filter is_translation (new_calls ex_state (snd ?run))
        = [Translate ''Was ist X?'' ''en'', Translate ''X is a widget.'' ''de'']
      \<and> (\<exists>row. InsertResponse row \<in> set (new_calls ex_state (snd ?run))
        \<and> r_user_input row = ''Was ist X?''
        \<and> r_output row = ''X ist ein Widget.''
        \<and> references (snd ?run)
            = [\<lparr>reference_id = ''r1'', reference_type = ''doc'', idx = 0,
                response_id = r_id row\<rparr>,
               \<lparr>reference_id = ''r2'', reference_type = ''product'', idx = 1,
                response_id = r_id row\<rparr>])"
  proof (elim exE conjE, goal_cases)
    case (1 translation lang)
    from 1(1) detect have t: "translation = ?tr" by simp
    from 1(2) have lg: "lang = ''de''" unfolding t by simp
    note rest = 1(4) [unfolded Let_def lg answer]
    have f: "filter is_translation (new_calls ex_state (snd ?run))
        = [Translate ''Was ist X?'' ''en'', Translate ''X is a widget.'' ''de'']"
      using rest [THEN conjunct1] by simp
    have "\<exists>row. InsertResponse row \<in> set (new_calls ex_state (snd ?run))"
      using rest [THEN conjunct2, THEN conjunct1] again by simp
    then obtain row where r: "InsertResponse row \<in> set (new_calls ex_state (snd ?run))" ..
    note facts = rest [THEN conjunct2, THEN conjunct2, THEN conjunct1, rule_format, OF r]
    have inp: "r_user_input row = ''Was ist X?''"
      using facts [THEN conjunct1] by simp
    have refs: "references (snd ?run)
            = [\<lparr>reference_id = ''r1'', reference_type = ''doc'', idx = 0,
                response_id = r_id row\<rparr>,
               \<lparr>reference_id = ''r2'', reference_type = ''product'', idx = 1,
                response_id = r_id row\<rparr>]"
      using facts [THEN conjunct2, THEN conjunct1]
      by (simp add: before enumerate_eq_zip upt_rec)
    have outp: "r_output row = ''X ist ein Widget.''"
      using facts [THEN conjunct2, THEN conjunct2, THEN conjunct2, THEN conjunct1] again
      by (simp add: fmt)
    from f r inp outp refs show ?case by blast
  qed
  then have inst: "filter is_translation (new_calls ex_state (snd ?run))
        = [Translate ''Was ist X?'' ''en'', Translate ''X is a widget.'' ''de'']"
    and row: "\<exists>row. InsertResponse row \<in> set (new_calls ex_state (snd ?run))
        \<and> r_user_input row = ''Was ist X?''
        \<and> r_output row = ''X ist ein Widget.''
        \<and> references (snd ?run)
            = [\<lparr>reference_id = ''r1'', reference_type = ''doc'', idx = 0,
                response_id = r_id row\<rparr>,
               \<lparr>reference_id = ''r2'', reference_type = ''product'', idx = 1,
                response_id = r_id row\<rparr>]"
    by (rule conjunct1, rule conjunct2)
  from posted failed inst row show ?thesis by blast
qed

subsection \<open>Quality scoring\<close>

lemma EvaluateWithRagas_notin [simp]:
  "EvaluateWithRagas question answer \<notin> set (admission_calls e request translation lang)"
  "EvaluateWithRagas question answer \<notin> set (back_translation lang outp)"
  "EvaluateWithRagas question answer
     \<notin> set (persist_calls e s chatId request products lang q payload)"
  by (auto simp: admission_calls_def guard_call_def back_translation_def persist_calls_def)

text \<open>
  C8. In a turn whose answer was scored (the scorer was called and returned the three
  mandatory scores), the faithfulness, answer-relevance and context-precision gauges
  hold the computed scores after the turn, whatever their values; the similarity gauge
  holds the similarity score when the scorer gave one and is untouched otherwise. The
  log receives the warning and the structured low-quality record (question, answer,
  faithfulness, answer relevance) exactly when faithfulness or answer relevance is
  below 0.8, and nothing otherwise. The turn returns its response.
\<close>

theorem scores_exported_and_low_quality_logged:
  assumes run: "create_chat_response e s chatId request user products = (result, s')"
      and scored: "EvaluateWithRagas question answer \<in> set (new_calls s s')"
      and scores: "evaluate_with_ragas e question answer = Inr ragas_scores"
      and f: "ragas_scores ''faithfulness'' = Some faithfulness"
      and ar: "ragas_scores ''answer_relevance'' = Some answer_relevance"
      and cp: "ragas_scores ''context_precision'' = Some context_precision"
  shows "faithfulness_gauge s' = faithfulness
         \<and> answer_relevance_gauge s' = answer_relevance
         \<and> context_precision_gauge s' = context_precision
         \<and> similarity_gauge s' =
               (case ragas_scores ''similarity'' of
                  None \<Rightarrow> similarity_gauge s | Some v \<Rightarrow> v)
         \<and> log s' = log s @
               (if faithfulness < 0.8 \<or> answer_relevance < 0.8
                then [LowRagasScore faithfulness answer_relevance question answer,
                      LowQualityResponse question answer faithfulness answer_relevance None]
                else [])
         \<and> question = content request
         \<and> (\<exists>cr. result = Inr cr \<and> cr_output cr = answer)"
  using run
proof (cases rule: run_cases)
  case (refused err us)
  with scored show ?thesis by simp
next
  case (translate_failed err us)
  with scored show ?thesis by simp
next
  case (unsupported translation us)
  with scored show ?thesis by simp
next
  case (guard_failed translation lang err us)
  with scored show ?thesis by simp
next
  case (guard_no_message translation lang g us)
  with scored show ?thesis by simp
next
  case (guard_rejected translation lang g m us)
  with scored show ?thesis by simp
next
  case (kg_failed translation lang err us)
  with scored show ?thesis by simp
next
  case (back_failed translation lang payload err us)
  with scored show ?thesis by simp
next
  case (persisted translation lang payload us s2 rs)
  let ?q = "detected_query request translation lang"
  let ?cr = "answer_of e s chatId request products lang ?q payload"
  have "new_calls s s' = admission_calls e request translation lang @
      [KgPost (search_local_url e) (posted_data e s chatId request products ?q)] @
      back_translation lang (cr_output (composed e request products payload)) @
      persist_calls e s chatId request products lang ?q payload @
      [EvaluateWithRagas (content request) (cr_output ?cr)]"
    using run_calls_persisted [OF persisted(5)] persisted(4) by simp
  with scored have qa: "question = content request" "answer = cr_output ?cr"
    by auto
  from persisted(5) show ?thesis
  proof (cases rule: scoring_cases)
    case (raised err)
    with scores qa show ?thesis by simp
  next
    case (missing scores' k)
    with scores qa f ar cp show ?thesis by auto
  next
    case (scored scores' f' ar' cp')
    have before: "log s2 = log s" "similarity_gauge s2 = similarity_gauge s"
      using persisted(4) by simp_all
    from scored scores qa f ar cp persisted(6) before show ?thesis
      by (auto simp: low_quality_records_def FAITHFULNESS_THRESHOLD_def
            RELEVANCE_THRESHOLD_def split: option.splits)
  qed
qed

theorem scores_exported_and_low_quality_logged_witness:
  "EvaluateWithRagas ''What is X?'' ''X is a widget.''
     \<in> set (new_calls ex_state
              (snd (create_chat_response ex_env ex_state ''C1''
                      \<lparr>content = ''What is X?'', stream = False\<rparr> ex_user ex_products)))
   \<and> evaluate_with_ragas ex_env ''What is X?'' ''X is a widget.'' = Inr ex_scores
   \<and> ex_scores ''faithfulness'' = Some 0.5
   \<and> ex_scores ''answer_relevance'' = Some 0.9
   \<and> ex_scores ''context_precision'' = Some 0.7
   \<and> faithfulness_gauge
         (snd (create_chat_response ex_env ex_state ''C1''
                 \<lparr>content = ''What is X?'', stream = False\<rparr> ex_user ex_products)) = 0.5
   \<and> answer_relevance_gauge
         (snd (create_chat_response ex_env ex_state ''C1''
                 \<lparr>content = ''What is X?'', stream = False\<rparr> ex_user ex_products)) = 0.9
   \<and> context_precision_gauge
         (snd (create_chat_response ex_env ex_state ''C1''
                 \<lparr>content = ''What is X?'', stream = False\<rparr> ex_user ex_products)) = 0.7
   \<and> similarity_gauge
         (snd (create_chat_response ex_env ex_state ''C1''
                 \<lparr>content = ''What is X?'', stream = False\<rparr> ex_user ex_products)) = 0
   \<and> log (snd (create_chat_response ex_env ex_state ''C1''
                 \<lparr>content = ''What is X?'', stream = False\<rparr> ex_user ex_products))
       = [LowRagasScore 0.5 0.9 ''What is X?'' ''X is a widget.'',
          LowQualityResponse ''What is X?'' ''X is a widget.'' 0.5 0.9 None]"
proof -
  let ?rq = "\<lparr>content = ''What is X?'', stream = False\<rparr>"
  let ?run = "create_chat_response ex_env ex_state ''C1'' ?rq ex_user ex_products"
  have run: "?run = (fst ?run, snd ?run)" by simp
  have scored: "EvaluateWithRagas ''What is X?'' ''X is a widget.''
      \<in> set (new_calls ex_state (snd ?run))"
    by (simp add: handler_defs ex_defs new_calls_def Let_def)
  have scores: "evaluate_with_ragas ex_env ''What is X?'' ''X is a widget.'' = Inr ex_scores"
    by (simp add: ex_env_def)
  have f: "ex_scores ''faithfulness'' = Some 0.5"
    and ar: "ex_scores ''answer_relevance'' = Some 0.9"
    and cp: "ex_scores ''context_precision'' = Some 0.7"
    and sim: "ex_scores ''similarity'' = None"
    by (simp_all add: ex_scores_def)
  have before: "log ex_state = []" "similarity_gauge ex_state = 0"
    by (simp_all add: ex_state_def)
  from scores_exported_and_low_quality_logged [OF run scored scores f ar cp]
    scored scores f ar cp sim before
  show ?thesis by simp
qed

subsection \<open>A failure of the scorer\<close>

lemma answer_of_fields:
  "answer_of e s chatId request products lang q payload =
     \<lparr>cr_id = r_id (persisted_row e s chatId request products lang q payload),
      cr_createdAt = r_createdAt (persisted_row e s chatId request products lang q payload),
      cr_input = r_user_input (persisted_row e s chatId request products lang q payload),
      cr_output = r_output (persisted_row e s chatId request products lang q payload),
      cr_references = cr_references (composed e request products payload)\<rparr>"
  by (cases "composed e request products payload")
     (simp add: answer_of_def persisted_row_def)

lemma scorer_irrelevant [simp]:
  "guard_passes (e\<lparr>evaluate_with_ragas := sc\<rparr>) = guard_passes e"
  "admitted (e\<lparr>evaluate_with_ragas := sc\<rparr>) = admitted e"
  "search_local_url (e\<lparr>evaluate_with_ragas := sc\<rparr>) = search_local_url e"
  "posted_data (e\<lparr>evaluate_with_ragas := sc\<rparr>) = posted_data e"
  "composed (e\<lparr>evaluate_with_ragas := sc\<rparr>) = composed e"
  "answer_of (e\<lparr>evaluate_with_ragas := sc\<rparr>) = answer_of e"
  by (simp_all add: fun_eq_iff admitted_def guard_passes_def search_local_url_def
        posted_data_def composed_def answer_of_def persisted_row_def final_output_def
        back_translated_def)

lemma returned_answer_cases:
  assumes run: "create_chat_response e s chatId request user products = (Inr cr, s')"
  obtains
    (unsupported) translation where
      "translate e (content request) ''en'' = Inr translation"
      "translation ''source_lang'' \<notin> {Some ''en'', Some ''de'', Some ''fr''}"
  | (rejected) translation lang where
      "translate e (content request) ''en'' = Inr translation"
      "translation ''source_lang'' = Some lang"
      "\<not> guard_passes e (detected_query request translation lang)"
  | (answered) translation lang payload where
      "admitted e request translation lang"
      "kg_post e (search_local_url e)
         (posted_data e s chatId request products (detected_query request translation lang))
       = Inr payload"
      "cr = answer_of e s chatId request products lang
              (detected_query request translation lang) payload"
  using run
proof (cases rule: run_cases)
  case (unsupported translation us)
  then show ?thesis by (intro that(1) [of translation]) auto
next
  case (guard_rejected translation lang g m us)
  then show ?thesis
    by (intro that(2) [of translation lang]) (auto simp: guard_passes_def)
next
  case (persisted translation lang payload us s2 rs)
  then show ?thesis
    by (intro that(3) [of translation lang payload]) (auto split: sum.splits)
qed simp_all

lemma scorer_does_not_change_answer:
  assumes run1: "create_chat_response e s chatId request user products = (Inr cr, s1)"
      and run2: "create_chat_response (e\<lparr>evaluate_with_ragas := sc\<rparr>) s chatId request user
                   products = (Inr cr2, s2)"
      and asked: "KgPost url pd \<in> set (new_calls s s1)"
  shows "cr2 = cr"
  using run1
proof (cases rule: returned_answer_cases)
  case (unsupported translation)
  from run1 asked show ?thesis
  proof (cases rule: run_cases)
    case (unsupported translation' us)
    with asked show ?thesis by simp
  next
    case (guard_rejected translation' lang g m us)
    with asked show ?thesis by simp
  next
    case (persisted translation' lang payload us s2' rs)
    with unsupported show ?thesis by (auto simp: admitted_def)
  qed simp_all
next
  case (rejected translation lang)
  from run1 asked show ?thesis
  proof (cases rule: run_cases)
    case (unsupported translation' us)
    with asked show ?thesis by simp
  next
    case (guard_rejected translation' lang' g m us)
    with asked show ?thesis by simp
  next
    case (persisted translation' lang' payload us s2' rs)
    with rejected show ?thesis by (auto simp: admitted_def)
  qed simp_all
next
  case (answered translation lang payload)
  note a1 = this
  from run2 show ?thesis
  proof (cases rule: returned_answer_cases)
    case (unsupported translation')
    with a1 show ?thesis by (auto simp: admitted_def)
  next
    case (rejected translation' lang')
    with a1 show ?thesis by (auto simp: admitted_def)
  next
    case (answered translation' lang' payload')
    with a1 show ?thesis by (auto simp: admitted_def)
  qed
qed

text \<open>
  C3, as the code has it. Lines 289--309 are not inside a \<^verbatim>\<open>try\<close>. In a turn that
  reaches the scoring step, the Response row (whose output is the scored answer) and
  one Reference row for each reference of the composer's list, in list order, have been
  inserted, and they stay inserted whatever the scorer does. A failure of the scorer is
  not caught and nothing is logged: the turn fails with the scorer's error. The same
  holds when a mandatory score is missing from the scorer's result: the turn fails with
  a \<^verbatim>\<open>KeyError\<close>. When the scorer returns the three mandatory scores, the turn returns
  the composed response: the identifier, creation time, input and output of the
  persisted row and the composer's references. The returned response does not depend
  on the scorer: two turns that differ only in the scorer and both return, return the
  same response.
\<close>

theorem scoring_failure_fails_the_turn:
  assumes run: "create_chat_response e s chatId request user products = (result, s')"
      and reached: "EvaluateWithRagas question answer \<in> set (new_calls s s')"
  shows "(\<exists>row.
            InsertResponse row \<in> set (new_calls s s')
          \<and> responses s' = responses s @ [row]
          \<and> r_output row = answer
          \<and> (let refs = cr_references (response_prepare e (content request)
                             (r_original_response row) (fst products) (uuid4 e))
             in references s' = references s @
                  map (\<lambda>(i, r). \<lparr>reference_id = ref_id r, reference_type = ref_type r,
                                  idx = i, response_id = r_id row\<rparr>) (enumerate 0 refs)
              \<and> (case evaluate_with_ragas e question answer of
                    Inl err \<Rightarrow> result = Inl err \<and> log s' = log s
                  | Inr scores \<Rightarrow>
                      (case (scores ''faithfulness'', scores ''answer_relevance'',
                             scores ''context_precision'') of
                         (Some f, Some ar, Some cp) \<Rightarrow>
                           result = Inr \<lparr>cr_id = r_id row, cr_createdAt = r_createdAt row,
                                         cr_input = r_user_input row,
                                         cr_output = r_output row, cr_references = refs\<rparr>
                       | _ \<Rightarrow> (\<exists>k. result = Inl (KeyError k)) \<and> log s' = log s))))
         \<and> (\<forall>scorer result2 s2 cr cr2.
               create_chat_response (e\<lparr>evaluate_with_ragas := scorer\<rparr>) s chatId request
                 user products = (result2, s2)
               \<longrightarrow> result = Inr cr \<longrightarrow> result2 = Inr cr2 \<longrightarrow> cr2 = cr)"
proof -
  have part12: "\<exists>row.
            InsertResponse row \<in> set (new_calls s s')
          \<and> responses s' = responses s @ [row]
          \<and> r_output row = answer
          \<and> (let refs = cr_references (response_prepare e (content request)
                             (r_original_response row) (fst products) (uuid4 e))
             in references s' = references s @
                  map (\<lambda>(i, r). \<lparr>reference_id = ref_id r, reference_type = ref_type r,
                                  idx = i, response_id = r_id row\<rparr>) (enumerate 0 refs)
              \<and> (case evaluate_with_ragas e question answer of
                    Inl err \<Rightarrow> result = Inl err \<and> log s' = log s
                  | Inr scores \<Rightarrow>
                      (case (scores ''faithfulness'', scores ''answer_relevance'',
                             scores ''context_precision'') of
                         (Some f, Some ar, Some cp) \<Rightarrow>
                           result = Inr \<lparr>cr_id = r_id row, cr_createdAt = r_createdAt row,
                                         cr_input = r_user_input row,
                                         cr_output = r_output row, cr_references = refs\<rparr>
                       | _ \<Rightarrow> (\<exists>k. result = Inl (KeyError k)) \<and> log s' = log s)))"
    using run
  proof (cases rule: run_cases)
    case (refused err us)
    with reached show ?thesis by simp
  next
    case (translate_failed err us)
    with reached show ?thesis by simp
  next
    case (unsupported translation us)
    with reached show ?thesis by simp
  next
    case (guard_failed translation lang err us)
    with reached show ?thesis by simp
  next
    case (guard_no_message translation lang g us)
    with reached show ?thesis by simp
  next
    case (guard_rejected translation lang g m us)
    with reached show ?thesis by simp
  next
    case (kg_failed translation lang err us)
    with reached show ?thesis by simp
  next
    case (back_failed translation lang payload err us)
    with reached show ?thesis by simp
  next
    case (persisted translation lang payload us s2 rs)
    let ?q = "detected_query request translation lang"
    let ?cr = "answer_of e s chatId request products lang ?q payload"
    let ?row = "persisted_row e s chatId request products lang ?q payload"
    let ?refs = "cr_references (composed e request products payload)"
    have calls: "new_calls s s' = admission_calls e request translation lang @
        [KgPost (search_local_url e) (posted_data e s chatId request products ?q)] @
        back_translation lang (cr_output (composed e request products payload)) @
        persist_calls e s chatId request products lang ?q payload @
        [EvaluateWithRagas (content request) (cr_output ?cr)]"
      using run_calls_persisted [OF persisted(5)] persisted(4) by simp
    with reached have qa: "question = content request" "answer = cr_output ?cr"
      by auto
    note sf = scoring_frame [OF persisted(5)]
    have before: "log s2 = log s" "responses s2 = responses s @ [?row]"
      "references s2 = references s @ map (reference_row_of (r_id ?row)) (enumerate 0 ?refs)"
      using persisted(4) by simp_all
    have payload: "r_original_response ?row = payload"
      by (simp add: persisted_row_def)
    have row: "InsertResponse ?row \<in> set (new_calls s s')"
      "responses s' = responses s @ [?row]" "r_output ?row = answer"
      unfolding calls using sf before qa by (simp_all add: answer_of_def)
    have refs: "references s' = references s @
        map (\<lambda>(i, r). \<lparr>reference_id = ref_id r, reference_type = ref_type r,
                        idx = i, response_id = r_id ?row\<rparr>) (enumerate 0 ?refs)"
      unfolding reference_row_of_split using sf before by simp
    have sc: "case evaluate_with_ragas e question answer of
               Inl err \<Rightarrow> result = Inl err \<and> log s' = log s
             | Inr scores \<Rightarrow>
                 (case (scores ''faithfulness'', scores ''answer_relevance'',
                        scores ''context_precision'') of
                    (Some f, Some ar, Some cp) \<Rightarrow>
                      result = Inr \<lparr>cr_id = r_id ?row, cr_createdAt = r_createdAt ?row,
                                    cr_input = r_user_input ?row,
                                    cr_output = r_output ?row, cr_references = ?refs\<rparr>
                  | _ \<Rightarrow> (\<exists>k. result = Inl (KeyError k)) \<and> log s' = log s)"
      using persisted(5)
    proof (cases rule: scoring_cases)
      case (raised err)
      with qa persisted(6) before show ?thesis by simp
    next
      case (missing scores k)
      with qa persisted(6) before show ?thesis
        by (auto split: option.splits)
    next
      case (scored scores f ar cp)
      with qa persisted(6) show ?thesis
        by (simp add: answer_of_fields [symmetric])
    qed
    have inst: "InsertResponse ?row \<in> set (new_calls s s')
          \<and> responses s' = responses s @ [?row]
          \<and> r_output ?row = answer
          \<and> (let refs = cr_references (response_prepare e (content request)
                             (r_original_response ?row) (fst products) (uuid4 e))
             in references s' = references s @
                  map (\<lambda>(i, r). \<lparr>reference_id = ref_id r, reference_type = ref_type r,
                                  idx = i, response_id = r_id ?row\<rparr>) (enumerate 0 refs)
              \<and> (case evaluate_with_ragas e question answer of
                    Inl err \<Rightarrow> result = Inl err \<and> log s' = log s
                  | Inr scores \<Rightarrow>
                      (case (scores ''faithfulness'', scores ''answer_relevance'',
                             scores ''context_precision'') of
                         (Some f, Some ar, Some cp) \<Rightarrow>
                           result = Inr \<lparr>cr_id = r_id ?row, cr_createdAt = r_createdAt ?row,
                                         cr_input = r_user_input ?row,
                                         cr_output = r_output ?row, cr_references = refs\<rparr>
                       | _ \<Rightarrow> (\<exists>k. result = Inl (KeyError k)) \<and> log s' = log s)))"
      unfolding Let_def payload composed_def [symmetric]
      using row refs sc by simp
    show ?thesis by (rule exI [where x = ?row]) (rule inst)
  qed
  have part3: "\<forall>scorer result2 s2 cr cr2.
               create_chat_response (e\<lparr>evaluate_with_ragas := scorer\<rparr>) s chatId request
                 user products = (result2, s2)
               \<longrightarrow> result = Inr cr \<longrightarrow> result2 = Inr cr2 \<longrightarrow> cr2 = cr"
  proof (intro allI impI)
    fix scorer result2 s2 cr cr2
    assume r2: "create_chat_response (e\<lparr>evaluate_with_ragas := scorer\<rparr>) s chatId request
                 user products = (result2, s2)"
      and ok: "result = Inr cr" and ok2: "result2 = Inr cr2"
    have "\<exists>url pd. KgPost url pd \<in> set (new_calls s s')"
      using run
    proof (cases rule: run_cases)
      case (persisted translation lang payload us s2' rs)
      from run_calls_persisted [OF persisted(5)] persisted(4)
      show ?thesis by (auto simp: exI)
    qed (use reached in simp_all)
    then obtain url pd where "KgPost url pd \<in> set (new_calls s s')" by blast
    with scorer_does_not_change_answer [of e s chatId request user products cr s' scorer cr2 s2 url pd]
      run r2 ok ok2
    show "cr2 = cr" by simp
  qed
  from part12 part3 show ?thesis by blast
qed

theorem scoring_failure_fails_the_turn_witness:
  "EvaluateWithRagas ''What is X?'' ''X is a widget.''
     \<in> set (new_calls ex_state
              (snd (create_chat_response ex_env_scoring_fails ex_state ''C1''
                      \<lparr>content = ''What is X?'', stream = False\<rparr> ex_user ex_products)))
   \<and> evaluate_with_ragas ex_env_scoring_fails ''What is X?'' ''X is a widget.''
       = Inl (UpstreamFailure ''evaluate_with_ragas'')
   \<and> fst (create_chat_response ex_env_scoring_fails ex_state ''C1''
             \<lparr>content = ''What is X?'', stream = False\<rparr> ex_user ex_products)
       = Inl (UpstreamFailure ''evaluate_with_ragas'')
   \<and> (\<exists>row. responses
                (snd (create_chat_response ex_env_scoring_fails ex_state ''C1''
                        \<lparr>content = ''What is X?'', stream = False\<rparr> ex_user ex_products))
              = responses ex_state @ [row]
            \<and> r_output row = ''X is a widget.''
            \<and> references
                (snd (create_chat_response ex_env_scoring_fails ex_state ''C1''
                        \<lparr>content = ''What is X?'', stream = False\<rparr> ex_user ex_products))
              = [\<lparr>reference_id = ''r1'', reference_type = ''doc'', idx = 0,
                  response_id = r_id row\<rparr>,
                 \<lparr>reference_id = ''r2'', reference_type = ''product'', idx = 1,
                  response_id = r_id row\<rparr>])"
proof -
  let ?rq = "\<lparr>content = ''What is X?'', stream = False\<rparr>"
  let ?run = "create_chat_response ex_env_scoring_fails ex_state ''C1'' ?rq ex_user ex_products"
  have run: "?run = (fst ?run, snd ?run)" by simp
  have reached: "EvaluateWithRagas ''What is X?'' ''X is a widget.''
      \<in> set (new_calls ex_state (snd ?run))"
    by (simp add: handler_defs ex_defs ex_env_scoring_fails_def new_calls_def Let_def)
  have failing: "evaluate_with_ragas ex_env_scoring_fails ''What is X?'' ''X is a widget.''
       = Inl (UpstreamFailure ''evaluate_with_ragas'')"
    by (simp add: ex_env_scoring_fails_def)
  have refs: "cr_references (response_prepare ex_env_scoring_fails x y z w)
      = [\<lparr>ref_id = ''r1'', ref_type = ''doc''\<rparr>, \<lparr>ref_id = ''r2'', ref_type = ''product''\<rparr>]"
    for x y z w
    by (simp add: ex_env_scoring_fails_def ex_env_def ex_response_prepare_def)
  have before: "references ex_state = []"
    by (simp add: ex_state_def)
  from scoring_failure_fails_the_turn [OF run reached]
  obtain row where row: "responses (snd ?run) = responses ex_state @ [row]"
      "r_output row = ''X is a widget.''"
      "references (snd ?run) = references ex_state @
         map (\<lambda>(i, r). \<lparr>reference_id = ref_id r, reference_type = ref_type r,
                          idx = i, response_id = r_id row\<rparr>)
           (enumerate 0 [\<lparr>ref_id = ''r1'', ref_type = ''doc''\<rparr>,
                         \<lparr>ref_id = ''r2'', ref_type = ''product''\<rparr>])"
      "fst ?run = Inl (UpstreamFailure ''evaluate_with_ragas'')"
    unfolding Let_def refs failing by auto
  from row(3) have "references (snd ?run)
      = [\<lparr>reference_id = ''r1'', reference_type = ''doc'', idx = 0, response_id = r_id row\<rparr>,
         \<lparr>reference_id = ''r2'', reference_type = ''product'', idx = 1,
          response_id = r_id row\<rparr>]"
    by (simp add: before enumerate_eq_zip upt_rec)
  with row reached failing show ?thesis by blast
qed

text \<open>
  C3, as the spec states it, fails: in the concrete service whose scorer raises, the
  turn for \<^verbatim>\<open>What is X?\<close> reaches the scoring step with its Response row and its two
  Reference rows inserted, and the handler returns the scorer's error instead of the
  composed response; nothing is logged.
\<close>

theorem scoring_failure_counterexample:
  "fst (create_chat_response ex_env_scoring_fails ex_state ''C1''
          \<lparr>content = ''What is X?'', stream = False\<rparr> ex_user ex_products)
     = Inl (UpstreamFailure ''evaluate_with_ragas'')
   \<and> EvaluateWithRagas ''What is X?'' ''X is a widget.''
       \<in> set (new_calls ex_state
                (snd (create_chat_response ex_env_scoring_fails ex_state ''C1''
                        \<lparr>content = ''What is X?'', stream = False\<rparr> ex_user ex_products)))
   \<and> length (responses
         (snd (create_chat_response ex_env_scoring_fails ex_state ''C1''
                 \<lparr>content = ''What is X?'', stream = False\<rparr> ex_user ex_products))) = 4
   \<and> length (references
         (snd (create_chat_response ex_env_scoring_fails ex_state ''C1''
                 \<lparr>content = ''What is X?'', stream = False\<rparr> ex_user ex_products))) = 2
   \<and> log (snd (create_chat_response ex_env_scoring_fails ex_state ''C1''
                 \<lparr>content = ''What is X?'', stream = False\<rparr> ex_user ex_products)) = []"
  by (simp add: handler_defs ex_defs ex_env_scoring_fails_def new_calls_def Let_def)

subsection \<open>Ratings\<close>

lemma set_rating_eta:
  "(\<lambda>r. if r_id r = rid then r\<lparr>r_rating := v\<rparr> else r) = set_rating rid v"
  by (simp add: fun_eq_iff set_rating_def)

lemma find_set_rating:
  "find (\<lambda>r. r_id r = rid) (map (set_rating rid' v) rs)
     = map_option (set_rating rid' v) (find (\<lambda>r. r_id r = rid) rs)"
  by (induction rs) (simp_all add: set_rating_def)

lemma set_rating_twice [simp]:
  "set_rating rid v (set_rating rid w r) = set_rating rid v r"
  by (simp add: set_rating_def)

lemma update_response_rating_found:
  assumes "get_response_by_id s rid = Some r"
  shows "update_response_rating s rid v =
           (Some (r\<lparr>r_rating := v\<rparr>),
            s\<lparr>calls := calls s @ [UpdateResponseRating rid v],
              responses := map (set_rating rid v) (responses s)\<rparr>)"
  using assms
  by (simp add: update_response_rating_def get_response_by_id_def Let_def set_rating_eta)

lemma found_id:
  "get_response_by_id s rid = Some r \<Longrightarrow> r_id r = rid"
  by (auto simp: get_response_by_id_def dest: find_Some_iff [THEN iffD1])

lemma get_response_by_id_updated:
  assumes "get_response_by_id s rid = Some r"
  shows "get_response_by_id
           (s\<lparr>calls := cs, responses := map (set_rating rid v) (responses s)\<rparr>) rid
         = Some (r\<lparr>r_rating := v\<rparr>)"
  using assms found_id [OF assms]
  by (simp add: get_response_by_id_def find_set_rating set_rating_def)

lemma validate_chat_existence_access_frame [simp]:
  "validate_chat_existence_access (s\<lparr>calls := cs, responses := rs\<rparr>)
     = validate_chat_existence_access s"
  by (simp add: fun_eq_iff validate_chat_existence_access_def)

lemma rating_access_frame [simp]:
  "rating_access (s\<lparr>calls := cs, responses := rs\<rparr>) = rating_access s"
  by (simp add: fun_eq_iff rating_access_def get_user_by_email_def split: option.splits)

lemma rating_access_granted:
  assumes "get_user_by_email s (email user) = Some user_obj"
      and "validate_chat_existence_access s chatId (meta_user_id user_obj) = None"
  shows "rating_access s chatId user = None"
  using assms by (simp add: rating_access_def)

lemma create_rating_found:
  assumes "rating_access s chatId user = None" and "get_response_by_id s rid = Some r"
  shows "create_rating s chatId rid \<lparr>rating = Some v\<rparr> user =
           (Inr \<lparr>rating = Some v\<rparr>,
            s\<lparr>calls := calls s @ [UpdateResponseRating rid (Some v)],
              responses := map (set_rating rid (Some v)) (responses s)\<rparr>)"
  using assms by (simp add: create_rating_def update_response_rating_found)

lemma update_rating_found:
  assumes "rating_access s chatId user = None" and "get_response_by_id s rid = Some r"
  shows "update_rating s chatId rid \<lparr>rating = Some v\<rparr> user =
           (Inr \<lparr>rating = Some v\<rparr>,
            s\<lparr>calls := calls s @ [UpdateResponseRating rid (Some v)],
              responses := map (set_rating rid (Some v)) (responses s)\<rparr>)"
  using assms by (simp add: update_rating_def update_response_rating_found)

lemma delete_rating_found:
  assumes "rating_access s chatId user = None" and "get_response_by_id s rid = Some r"
  shows "delete_rating s chatId rid user =
           (Inr (),
            s\<lparr>calls := calls s @ [UpdateResponseRating rid None],
              responses := map (set_rating rid None) (responses s)\<rparr>)"
  using assms by (simp add: delete_rating_def update_response_rating_found)

lemma get_rating_found:
  assumes "rating_access s chatId user = None" and "get_response_by_id s rid = Some r"
  shows "get_rating s chatId rid user = Inr \<lparr>rating = r_rating r\<rparr>"
  using assms by (simp add: get_rating_def split: option.splits)

text \<open>
  C7. For a caller whose user row exists and who owns the chat of the path, and for an
  existing response: \<^verbatim>\<open>create_rating\<close> with the value \<open>v\<close> returns \<open>v\<close>, and
  \<^verbatim>\<open>get_rating\<close> then returns \<open>v\<close>; \<^verbatim>\<open>delete_rating\<close> then succeeds, and \<^verbatim>\<open>get_rating\<close>
  then returns the rating object without a rating. Each of the two writes changes
  nothing but the rating of the responses with this identifier: every other field of
  every Response row, and the user, chat and Reference tables, are as before.
  \<^verbatim>\<open>get_rating\<close> writes nothing.
\<close>

theorem rating_set_get_clear_get:
  assumes user: "get_user_by_email s (email user) = Some user_obj"
      and owns: "validate_chat_existence_access s chatId (meta_user_id user_obj) = None"
      and exists: "get_response_by_id s responseId = Some response"
  shows "let (created, s1) = create_rating s chatId responseId \<lparr>rating = Some v\<rparr> user;
             (deleted, s2) = delete_rating s1 chatId responseId user
         in created = Inr \<lparr>rating = Some v\<rparr>
            \<and> get_rating s1 chatId responseId user = Inr \<lparr>rating = Some v\<rparr>
            \<and> deleted = Inr ()
            \<and> get_rating s2 chatId responseId user = Inr \<lparr>rating = None\<rparr>
            \<and> responses s1 =
                 map (\<lambda>r. if r_id r = responseId then r\<lparr>r_rating := Some v\<rparr> else r)
                   (responses s)
            \<and> responses s2 =
                 map (\<lambda>r. if r_id r = responseId then r\<lparr>r_rating := None\<rparr> else r)
                   (responses s)
            \<and> users s1 = users s \<and> chats s1 = chats s \<and> references s1 = references s
            \<and> users s2 = users s \<and> chats s2 = chats s \<and> references s2 = references s"
proof -
  note acc = rating_access_granted [OF user owns]
  let ?s1 = "s\<lparr>calls := calls s @ [UpdateResponseRating responseId (Some v)],
               responses := map (set_rating responseId (Some v)) (responses s)\<rparr>"
  let ?s2 = "?s1\<lparr>calls := calls ?s1 @ [UpdateResponseRating responseId None],
               responses := map (set_rating responseId None) (responses ?s1)\<rparr>"
  have c: "create_rating s chatId responseId \<lparr>rating = Some v\<rparr> user
             = (Inr \<lparr>rating = Some v\<rparr>, ?s1)"
    by (rule create_rating_found [OF acc exists])
  have acc1: "rating_access ?s1 chatId user = None"
    using acc by simp
  have ex1: "get_response_by_id ?s1 responseId = Some (response\<lparr>r_rating := Some v\<rparr>)"
    by (rule get_response_by_id_updated [OF exists])
  have g1: "get_rating ?s1 chatId responseId user = Inr \<lparr>rating = Some v\<rparr>"
    using get_rating_found [OF acc1 ex1] by simp
  have d: "delete_rating ?s1 chatId responseId user = (Inr (), ?s2)"
    by (rule delete_rating_found [OF acc1 ex1])
  have acc2: "rating_access ?s2 chatId user = None"
    using acc by simp
  have ex2: "get_response_by_id ?s2 responseId
      = Some (response\<lparr>r_rating := Some v, r_rating := None\<rparr>)"
    by (rule get_response_by_id_updated [OF ex1])
  have g2: "get_rating ?s2 chatId responseId user = Inr \<lparr>rating = None\<rparr>"
    using get_rating_found [OF acc2 ex2] by simp
  show ?thesis
    using c d g1 g2
    by (simp add: Let_def set_rating_eta comp_def)
qed

theorem rating_set_get_clear_get_witness:
  "get_user_by_email ex_state (email ex_user)
     = Some \<lparr>meta_user_id = 1, u_email = ''u@x.com''\<rparr>
   \<and> validate_chat_existence_access ex_state ''C1'' 1 = None
   \<and> get_response_by_id ex_state ''a1''
       = Some \<lparr>r_id = ''a1'', r_chat_id = ''C1'', r_user_input = ''i1'', r_query = ''q1'',
               r_output = ''o1'', r_original_response = ''p1'', r_rating = None,
               r_createdAt = 20\<rparr>
   \<and> fst (create_rating ex_state ''C1'' ''a1'' \<lparr>rating = Some 4\<rparr> ex_user)
       = Inr \<lparr>rating = Some 4\<rparr>
   \<and> get_rating (snd (create_rating ex_state ''C1'' ''a1'' \<lparr>rating = Some 4\<rparr> ex_user))
         ''C1'' ''a1'' ex_user
       = Inr \<lparr>rating = Some 4\<rparr>
   \<and> get_rating
         (snd (delete_rating
                 (snd (create_rating ex_state ''C1'' ''a1'' \<lparr>rating = Some 4\<rparr> ex_user))
                 ''C1'' ''a1'' ex_user))
         ''C1'' ''a1'' ex_user
       = Inr \<lparr>rating = None\<rparr>"
proof -
  let ?u = "\<lparr>meta_user_id = 1, u_email = ''u@x.com''\<rparr>"
  let ?r = "\<lparr>r_id = ''a1'', r_chat_id = ''C1'', r_user_input = ''i1'', r_query = ''q1'',
               r_output = ''o1'', r_original_response = ''p1'', r_rating = None,
               r_createdAt = 20\<rparr>"
  have user: "get_user_by_email ex_state (email ex_user) = Some ?u"
    by (simp add: get_user_by_email_def ex_state_def ex_user_def)
  have owns: "validate_chat_existence_access ex_state ''C1'' (meta_user_id ?u) = None"
    by (simp add: validate_chat_existence_access_def ex_state_def)
  have exists: "get_response_by_id ex_state ''a1'' = Some ?r"
    by (simp add: get_response_by_id_def ex_state_def)
  from rating_set_get_clear_get [OF user owns exists, of 4] user owns exists
  show ?thesis
    by (simp add: Let_def split_beta)
qed

text \<open>
  C9. The rating handlers validate the chat of the path against the caller and then
  find the response by its identifier alone. So for a caller who owns the chat of the
  path and for any existing response, whatever chat it belongs to, \<^verbatim>\<open>get_rating\<close>
  returns the rating of that response, \<^verbatim>\<open>create_rating\<close> and \<^verbatim>\<open>update_rating\<close> set it,
  and \<^verbatim>\<open>delete_rating\<close> clears it; none fails. No hypothesis relates the chat of the
  response to the chat of the path. In the concrete service the caller \<^verbatim>\<open>u@x.com\<close>
  reads and clears, through the own chat \<^verbatim>\<open>C1\<close>, the rating of the response \<^verbatim>\<open>b1\<close> of
  the chat \<^verbatim>\<open>C2\<close>, which belongs to another user and to which the caller has no
  access.
\<close>

theorem rating_reached_through_any_owned_chat:
  assumes user: "get_user_by_email s (email user) = Some user_obj"
      and owns: "validate_chat_existence_access s chatId (meta_user_id user_obj) = None"
      and exists: "get_response_by_id s responseId = Some response"
  shows "get_rating s chatId responseId user = Inr \<lparr>rating = r_rating response\<rparr>
         \<and> fst (create_rating s chatId responseId \<lparr>rating = Some v\<rparr> user)
             = Inr \<lparr>rating = Some v\<rparr>
         \<and> get_response_by_id
               (snd (create_rating s chatId responseId \<lparr>rating = Some v\<rparr> user)) responseId
             = Some (response\<lparr>r_rating := Some v\<rparr>)
         \<and> fst (update_rating s chatId responseId \<lparr>rating = Some v\<rparr> user)
             = Inr \<lparr>rating = Some v\<rparr>
         \<and> get_response_by_id
               (snd (update_rating s chatId responseId \<lparr>rating = Some v\<rparr> user)) responseId
             = Some (response\<lparr>r_rating := Some v\<rparr>)
         \<and> fst (delete_rating s chatId responseId user) = Inr ()
         \<and> get_response_by_id (snd (delete_rating s chatId responseId user)) responseId
             = Some (response\<lparr>r_rating := None\<rparr>)"
proof -
  note acc = rating_access_granted [OF user owns]
  show ?thesis
    unfolding get_rating_found [OF acc exists] create_rating_found [OF acc exists]
      update_rating_found [OF acc exists] delete_rating_found [OF acc exists]
    using get_response_by_id_updated [OF exists]
    by simp
qed

theorem rating_reached_through_any_owned_chat_witness:
  "get_user_by_email ex_state (email ex_user)
     = Some \<lparr>meta_user_id = 1, u_email = ''u@x.com''\<rparr>
   \<and> validate_chat_existence_access ex_state ''C1'' 1 = None
   \<and> validate_chat_existence_access ex_state ''C2'' 1 = Some AccessDenied
   \<and> get_response_by_id ex_state ''b1''
       = Some \<lparr>r_id = ''b1'', r_chat_id = ''C2'', r_user_input = ''i2'', r_query = ''q2'',
               r_output = ''o2'', r_original_response = ''p2'', r_rating = Some 1,
               r_createdAt = 25\<rparr>
   \<and> get_rating ex_state ''C1'' ''b1'' ex_user = Inr \<lparr>rating = Some 1\<rparr>
   \<and> fst (create_rating ex_state ''C1'' ''b1'' \<lparr>rating = Some 5\<rparr> ex_user)
       = Inr \<lparr>rating = Some 5\<rparr>
   \<and> fst (update_rating ex_state ''C1'' ''b1'' \<lparr>rating = Some 5\<rparr> ex_user)
       = Inr \<lparr>rating = Some 5\<rparr>
   \<and> fst (delete_rating ex_state ''C1'' ''b1'' ex_user) = Inr ()
   \<and> map_option r_rating
         (get_response_by_id (snd (delete_rating ex_state ''C1'' ''b1'' ex_user)) ''b1'')
       = Some None"
proof -
  let ?u = "\<lparr>meta_user_id = 1, u_email = ''u@x.com''\<rparr>"
  let ?r = "\<lparr>r_id = ''b1'', r_chat_id = ''C2'', r_user_input = ''i2'', r_query = ''q2'',
               r_output = ''o2'', r_original_response = ''p2'', r_rating = Some 1,
               r_createdAt = 25\<rparr>"
  have user: "get_user_by_email ex_state (email ex_user) = Some ?u"
    by (simp add: get_user_by_email_def ex_state_def ex_user_def)
  have owns: "validate_chat_existence_access ex_state ''C1'' (meta_user_id ?u) = None"
    by (simp add: validate_chat_existence_access_def ex_state_def)
  have other: "validate_chat_existence_access ex_state ''C2'' 1 = Some AccessDenied"
    by (simp add: validate_chat_existence_access_def ex_state_def)
  have exists: "get_response_by_id ex_state ''b1'' = Some ?r"
    by (simp add: get_response_by_id_def ex_state_def)
  from rating_reached_through_any_owned_chat [OF user owns exists, of 5]
    user owns other exists
  show ?thesis
    by simp
qed

end
